theory Spec2Isabelle
  imports Main "HOL-Library.Monad_Syntax" "HOL-Library.AList"
begin

section \<open>Strings\<close>

text \<open>
  A Python \<open>str\<close> is a sequence of Unicode code points. The character classes of
  \<open>collect.py\<close> and \<open>tidy.py\<close> mention the code points U+4E00 to U+9FA5, which an
  8-bit \<open>char\<close> cannot hold, so a string is modelled as the list of its code points.
  \<open>ascii\<close> writes a literal.
\<close>

type_synonym str = "nat list"

definition ascii :: "string \<Rightarrow> str" where
  "ascii cs = map of_char cs"

text \<open>The exceptions that the modelled code can raise.\<close>

datatype exn = AttributeError | ValueError | TypeError | KeyError | FileNotFoundError
  | NotADirectoryError | FileExistsError | UnboundLocalError | EOFError | SystemExit

text \<open>The character class of U+4E00 to U+9FA5, \<open>A-Z\<close> and \<open>a-z\<close> in \<open>process_datetime\<close> and \<open>pick_num\<close>.\<close>

definition cjk_or_latin :: "nat \<Rightarrow> bool" where
  "cjk_or_latin c \<longleftrightarrow>
     (0x4E00 \<le> c \<and> c \<le> 0x9FA5) \<or> (0x41 \<le> c \<and> c \<le> 0x5A) \<or> (0x61 \<le> c \<and> c \<le> 0x7A)"

text \<open>\<open>re.sub\<close> with that class and the empty replacement: every character of the class is dropped.\<close>

definition strip_letters :: "str \<Rightarrow> str" where
  "strip_letters s = filter (\<lambda>c. \<not> cjk_or_latin c) s"

text \<open>\<open>s.replace(a, b)\<close> for one-character strings \<open>a\<close> and \<open>b\<close>.\<close>

definition replace_char :: "nat \<Rightarrow> nat \<Rightarrow> str \<Rightarrow> str" where
  "replace_char a b s = map (\<lambda>c. if c = a then b else c) s"

text \<open>
  \<open>\d\<close> and \<open>\s\<close>. The model's \<open>\d\<close> is the ASCII class \<open>0\<close> to \<open>9\<close>; the decimal
  digits of other scripts, which Python's \<open>\d\<close> and \<open>int\<close> also accept, are outside the
  modelled inputs. \<open>\s\<close> is Python's Unicode whitespace.
\<close>

definition is_digit :: "nat \<Rightarrow> bool" where
  "is_digit c \<longleftrightarrow> 48 \<le> c \<and> c \<le> 57"

definition is_space :: "nat \<Rightarrow> bool" where
  "is_space c \<longleftrightarrow>
     (9 \<le> c \<and> c \<le> 13) \<or> (28 \<le> c \<and> c \<le> 32) \<or> c = 0x85 \<or> c = 0xA0 \<or> c = 0x1680
     \<or> (0x2000 \<le> c \<and> c \<le> 0x200A) \<or> c = 0x2028 \<or> c = 0x2029 \<or> c = 0x202F
     \<or> c = 0x205F \<or> c = 0x3000"

text \<open>\<open>int(s)\<close> on a string of ASCII digits (the regex groups are such strings).\<close>

definition py_int :: "str \<Rightarrow> nat" where
  "py_int s = foldl (\<lambda>n c. 10 * n + (c - 48)) 0 s"

text \<open>\<open>str(n)\<close> and the format specification \<open>{n:0w}\<close> for a non-negative integer.\<close>

fun str_nat :: "nat \<Rightarrow> str" where
  "str_nat n = (if n < 10 then [48 + n] else str_nat (n div 10) @ [48 + n mod 10])"

declare str_nat.simps [simp del]

definition fmt0 :: "nat \<Rightarrow> nat \<Rightarrow> str" where
  "fmt0 w n = (let s = str_nat n in replicate (w - length s) 48 @ s)"

section \<open>collect.py: process_datetime\<close>

text \<open>
  The pattern of \<open>process_datetime\<close> is
  \<^verbatim>\<open>.*(?P<year>\d{4}):(?P<month>\d{1,2}):(?P<day>\d{1,2})\s+(?P<hour>\d{1,2}):(?P<minute>\d{1,2}):(?P<second>\d{1,2}).*\<close>
  Between the two \<open>.*\<close> every repetition is followed by a character outside its class
  (a digit is neither \<open>:\<close> nor whitespace), except the last \<open>\d{1,2}\<close>, which is followed by
  \<open>.*\<close> and keeps its greedy choice. So the part after the leading \<open>.*\<close> matches at a
  position in at most one way, the greedy one. \<open>parse_core\<close> computes it, with the
  text left after the seconds; \<open>match_core\<close> lets the trailing \<open>.*\<close> take that text.
\<close>

record groups =
  g_year :: str
  g_month :: str
  g_day :: str
  g_hour :: str
  g_minute :: str
  g_second :: str

fun digits4 :: "str \<Rightarrow> (str \<times> str) option" where
  "digits4 (a # b # c # d # r) =
     (if is_digit a \<and> is_digit b \<and> is_digit c \<and> is_digit d then Some ([a, b, c, d], r) else None)"
| "digits4 _ = None"

fun digits12 :: "str \<Rightarrow> (str \<times> str) option" where
  "digits12 (a # b # r) =
     (if is_digit a then (if is_digit b then Some ([a, b], r) else Some ([a], b # r)) else None)"
| "digits12 [a] = (if is_digit a then Some ([a], []) else None)"
| "digits12 [] = None"

fun lit :: "nat \<Rightarrow> str \<Rightarrow> str option" where
  "lit c (x # r) = (if x = c then Some r else None)"
| "lit c [] = None"

fun spaces1 :: "str \<Rightarrow> str option" where
  "spaces1 (x # r) = (if is_space x then Some (dropWhile is_space r) else None)"
| "spaces1 [] = None"

definition parse_core :: "str \<Rightarrow> (groups \<times> str) option" where
  "parse_core s = do {
     (y, r) \<leftarrow> digits4 s;
     r \<leftarrow> lit 58 r;
     (mo, r) \<leftarrow> digits12 r;
     r \<leftarrow> lit 58 r;
     (d, r) \<leftarrow> digits12 r;
     r \<leftarrow> spaces1 r;
     (h, r) \<leftarrow> digits12 r;
     r \<leftarrow> lit 58 r;
     (mi, r) \<leftarrow> digits12 r;
     r \<leftarrow> lit 58 r;
     (se, r) \<leftarrow> digits12 r;
     Some (\<lparr>g_year = y, g_month = mo, g_day = d, g_hour = h, g_minute = mi, g_second = se\<rparr>, r)
   }"

definition match_core :: "str \<Rightarrow> groups option" where
  "match_core s = map_option fst (parse_core s)"

text \<open>
  The leading \<open>.*\<close> is greedy and does not cross a newline: from a start position it
  first tries the farthest position of the line and gives characters back one at a time.
  \<open>re.search\<close> tries the start positions from left to right.
\<close>

fun greedy_prefix :: "str \<Rightarrow> groups option" where
  "greedy_prefix [] = match_core []"
| "greedy_prefix (c # cs) =
     (case (if c = 10 then None else greedy_prefix cs) of
        Some g \<Rightarrow> Some g
      | None \<Rightarrow> match_core (c # cs))"

fun re_search :: "str \<Rightarrow> groups option" where
  "re_search [] = greedy_prefix []"
| "re_search (c # cs) =
     (case greedy_prefix (c # cs) of Some g \<Rightarrow> Some g | None \<Rightarrow> re_search cs)"

text \<open>
  \<open>process_datetime\<close>. \<open>re.search\<close> does not raise when nothing matches, it returns
  \<open>None\<close>, and the \<open>group\<close> call on \<open>None\<close> raises \<open>AttributeError\<close> outside the
  \<open>try\<close> block. The fields are non-negative, so the tests \<open>hour < 0\<close> are omitted.
\<close>

definition process_datetime :: "str \<Rightarrow> exn + str option" where
  "process_datetime raw_datetime =
    (let datetime = strip_letters raw_datetime;
         datetime = replace_char 45 58 datetime;
         datetime = replace_char 47 58 datetime
     in case re_search datetime of
          None \<Rightarrow> Inl AttributeError
        | Some g \<Rightarrow>
           (let year = py_int (g_year g); month = py_int (g_month g); day = py_int (g_day g);
                hour = py_int (g_hour g); minute = py_int (g_minute g);
                second = py_int (g_second g)
            in if year < 1900 \<or> year > 2050 then Inr None
               else if month < 1 \<or> month > 12 then Inr None
               else if day < 1 \<or> day > 31 then Inr None
               else
                 (let hour = (if hour > 23 then hour mod 24 else hour);
                      minute = (if minute > 59 then minute mod 60 else minute);
                      second = (if second > 59 then second mod 60 else second)
                  in Inr (Some (str_nat year @ [58] @ fmt0 2 month @ [58] @ fmt0 2 day @ [32]
                        @ fmt0 2 hour @ [58] @ fmt0 2 minute @ [58] @ fmt0 2 second)))))"

section \<open>The library functions time.strptime and time.strftime\<close>

text \<open>
  \<open>time.strptime(s, '%Y:%m:%d %H:%M:%S')\<close> is the strict second pass of the
  extractors. It is a function of the Python library: the whole string has to be four
  digits of year and five fields of one or two digits with the separators of the format,
  each field in its range (seconds up to 61), and the day has to exist in the month of
  that year, else it raises \<open>ValueError\<close>. The code only calls it on the strings that
  \<open>process_datetime\<close> renders.
\<close>

record struct_time =
  tm_year :: nat
  tm_mon :: nat
  tm_mday :: nat
  tm_hour :: nat
  tm_min :: nat
  tm_sec :: nat

definition is_leap :: "nat \<Rightarrow> bool" where
  "is_leap y \<longleftrightarrow> y mod 4 = 0 \<and> (y mod 100 \<noteq> 0 \<or> y mod 400 = 0)"

definition days_in_month :: "nat \<Rightarrow> nat \<Rightarrow> nat" where
  "days_in_month y m =
     (if m = 2 then (if is_leap y then 29 else 28)
      else if m = 4 \<or> m = 6 \<or> m = 9 \<or> m = 11 then 30 else 31)"

definition strptime :: "str \<Rightarrow> exn + struct_time" where
  "strptime s =
     (case parse_core s of
        None \<Rightarrow> Inl ValueError
      | Some (g, rest) \<Rightarrow>
         (let y = py_int (g_year g); mo = py_int (g_month g); d = py_int (g_day g);
              h = py_int (g_hour g); mi = py_int (g_minute g); se = py_int (g_second g)
          in if rest \<noteq> [] then Inl ValueError
             else if mo < 1 \<or> mo > 12 \<or> d < 1 \<or> d > 31 \<or> h > 23 \<or> mi > 59 \<or> se > 61
               then Inl ValueError
             else if y < 1 \<or> d > days_in_month y mo then Inl ValueError
             else Inr \<lparr>tm_year = y, tm_mon = mo, tm_mday = d, tm_hour = h, tm_min = mi,
                        tm_sec = se\<rparr>))"

text \<open>\<open>time.strftime('%Y/%m', t)\<close> and \<open>time.strftime('%Y%m%d_%H%M%S', t)\<close>.\<close>

definition strftime_short :: "struct_time \<Rightarrow> str" where
  "strftime_short t = fmt0 4 (tm_year t) @ [47] @ fmt0 2 (tm_mon t)"

definition strftime_long :: "struct_time \<Rightarrow> str" where
  "strftime_long t =
     fmt0 4 (tm_year t) @ fmt0 2 (tm_mon t) @ fmt0 2 (tm_mday t) @ [95]
     @ fmt0 2 (tm_hour t) @ fmt0 2 (tm_min t) @ fmt0 2 (tm_sec t)"

section \<open>collect.py: the two extractors\<close>

text \<open>
  The decoders \<open>exifread\<close> and \<open>hachoir\<close> are libraries. What they give for a file is
  an input of the model: either the decoding raised inside the \<open>try\<close> block
  (\<open>Unreadable\<close>), or it gave the EXIF dictionary (tag name to value, an association
  list) or the list of metadata lines.
\<close>

datatype 'a decoded = Unreadable | Decoded 'a

record media_file =
  exif_read :: "(str \<times> str) list decoded"
  meta_read :: "str list decoded"

definition EXIF_KEYS :: "str list" where
  "EXIF_KEYS = [ascii ''EXIF DateTimeOriginal'', ascii ''EXIF DateTimeDigitized'',
                ascii ''Image DateTime'']"

definition META_KEYS :: "str list" where
  "META_KEYS = [ascii ''Date-time original'', ascii ''Date-time digitized'',
                ascii ''Creation date'']"

text \<open>
  The result dictionary of an extractor. \<open>m_stat\<close> is the digit of the source's
  \<open>stat\<close>: 0 success, 1 unreadable, 2 no tags, 3 no date field, 4 invalid date.
\<close>

record ext_msg =
  m_stat :: nat
  m_type :: string
  m_key :: "str option"
  m_raw :: "str option"
  m_short :: "str option"
  m_long :: "str option"

definition init_msg :: "string \<Rightarrow> ext_msg" where
  "init_msg ty = \<lparr>m_stat = 1, m_type = ty, m_key = None, m_raw = None, m_short = None,
                   m_long = None\<rparr>"

text \<open>Python's truth value of a variable that holds \<open>None\<close> or a string.\<close>

definition truthy :: "str option \<Rightarrow> bool" where
  "truthy v = (case v of None \<Rightarrow> False | Some t \<Rightarrow> t \<noteq> [])"

text \<open>
  Lines 156 to 172 and 217 to 233: what both extractors do with the raw text of the
  tag they found. Nothing here catches an exception of \<open>process_datetime\<close> or of
  \<open>time.strptime\<close>.
\<close>

definition extract_date :: "ext_msg \<Rightarrow> str \<Rightarrow> str \<Rightarrow> exn + ext_msg" where
  "extract_date msg datetime_key raw_datetime =
     (case process_datetime raw_datetime of
        Inl e \<Rightarrow> Inl e
      | Inr pro_datetime \<Rightarrow>
          if truthy pro_datetime then
            (case strptime (the pro_datetime) of
               Inl e \<Rightarrow> Inl e
             | Inr datetime \<Rightarrow>
                 Inr (msg\<lparr>m_stat := 0, m_key := Some datetime_key, m_raw := Some raw_datetime,
                          m_short := Some (strftime_short datetime),
                          m_long := Some (strftime_long datetime)\<rparr>))
          else Inr (msg\<lparr>m_stat := 4\<rparr>))"

definition get_exif_datetime :: "(str \<times> str) list decoded \<Rightarrow> str list \<Rightarrow> exn + ext_msg" where
  "get_exif_datetime f tag_keys =
     (let msg = init_msg ''EXIF'' in
      case f of
        Unreadable \<Rightarrow> Inr msg
      | Decoded exif_tags \<Rightarrow>
          if exif_tags \<noteq> [] then
            (let datetime_key = find (\<lambda>k. map_of exif_tags k \<noteq> None) tag_keys in
             if truthy datetime_key then
               (case map_of exif_tags (the datetime_key) of
                  None \<Rightarrow> Inl AttributeError
                | Some raw_datetime \<Rightarrow> extract_date msg (the datetime_key) raw_datetime)
             else Inr (msg\<lparr>m_stat := 3\<rparr>))
          else Inr (msg\<lparr>m_stat := 2\<rparr>))"

text \<open>\<open>tag.startswith(key)\<close>, and \<open>s.replace(old, '')\<close> for a non-empty \<open>old\<close>.\<close>

definition startswith :: "str \<Rightarrow> str \<Rightarrow> bool" where
  "startswith s p \<longleftrightarrow> take (length p) s = p"

function remove_all :: "str \<Rightarrow> str \<Rightarrow> str" where
  "remove_all old [] = []"
| "remove_all old (c # cs) =
     (if old \<noteq> [] \<and> startswith (c # cs) old then remove_all old (drop (length old) (c # cs))
      else c # remove_all old cs)"
  by pat_completeness auto
termination
  by (relation "measure (\<lambda>(old, s). length s)") auto

text \<open>The nested loops of lines 208 to 216: the first key, in order, that some line starts with.\<close>

fun find_meta_key :: "str list \<Rightarrow> str list \<Rightarrow> (str \<times> str) option" where
  "find_meta_key [] meta_tags = None"
| "find_meta_key (k # ks) meta_tags =
     (case find (\<lambda>tag. startswith tag k) meta_tags of
        Some tag \<Rightarrow> Some (k, tag)
      | None \<Rightarrow> find_meta_key ks meta_tags)"

definition get_meta_datetime :: "str list decoded \<Rightarrow> str list \<Rightarrow> exn + ext_msg" where
  "get_meta_datetime f tag_keys =
     (let msg = init_msg ''META'' in
      case f of
        Unreadable \<Rightarrow> Inr msg
      | Decoded meta_tags \<Rightarrow>
          if meta_tags \<noteq> [] then
            (case find_meta_key tag_keys meta_tags of
               Some (datetime_key, key_tag) \<Rightarrow>
                 if datetime_key \<noteq> [] \<and> key_tag \<noteq> [] then
                   extract_date msg datetime_key (remove_all (datetime_key @ [58, 32]) key_tag)
                 else Inr (msg\<lparr>m_stat := 3\<rparr>)
             | None \<Rightarrow> Inr (msg\<lparr>m_stat := 3\<rparr>))
          else Inr (msg\<lparr>m_stat := 2\<rparr>))"

section \<open>collect.py: get_datetime\<close>

datatype check = BOTH | META | EXIF | D_ERR | Y_ERR

record dt_msg =
  d_stat :: nat
  d_check :: "check option"
  EXIF_K :: "str option"
  EXIF_R :: "str option"
  EXIF_S :: "str option"
  EXIF_L :: "str option"
  META_K :: "str option"
  META_R :: "str option"
  META_S :: "str option"
  META_L :: "str option"

definition init_dt_msg :: dt_msg where
  "init_dt_msg = \<lparr>d_stat = 1, d_check = None, EXIF_K = None, EXIF_R = None, EXIF_S = None,
     EXIF_L = None, META_K = None, META_R = None, META_S = None, META_L = None\<rparr>"

text \<open>
  \<open>int(s.split('/')[0])\<close> of a short date; on \<open>None\<close> the method call raises
  \<open>AttributeError\<close>.
\<close>

definition year_of_short :: "str option \<Rightarrow> exn + nat" where
  "year_of_short v =
     (case v of None \<Rightarrow> Inl AttributeError
      | Some t \<Rightarrow> Inr (py_int (takeWhile (\<lambda>c. c \<noteq> 47) t)))"

text \<open>
  Lines 263 to 278: the two results are copied into the record. The local variable
  \<open>the_year\<close> is unbound until a source succeeds, and the second source overwrites it.
\<close>

definition take_exif :: "ext_msg \<Rightarrow> dt_msg \<times> nat option \<Rightarrow> exn + dt_msg \<times> nat option" where
  "take_exif exif_dt st =
     (case st of (msg, the_year) \<Rightarrow>
        if m_stat exif_dt = 0 then
          (let msg = msg\<lparr>d_stat := 0, EXIF_K := m_key exif_dt, EXIF_R := m_raw exif_dt,
                            EXIF_S := m_short exif_dt, EXIF_L := m_long exif_dt\<rparr>
           in case year_of_short (EXIF_S msg) of
                Inl e \<Rightarrow> Inl e
              | Inr y \<Rightarrow> Inr (msg, Some y))
        else Inr (msg, the_year))"

definition take_meta :: "ext_msg \<Rightarrow> dt_msg \<times> nat option \<Rightarrow> exn + dt_msg \<times> nat option" where
  "take_meta meta_dt st =
     (case st of (msg, the_year) \<Rightarrow>
        if m_stat meta_dt = 0 then
          (let msg = msg\<lparr>d_stat := 0, META_K := m_key meta_dt, META_R := m_raw meta_dt,
                            META_S := m_short meta_dt, META_L := m_long meta_dt\<rparr>
           in case year_of_short (META_S msg) of
                Inl e \<Rightarrow> Inl e
              | Inr y \<Rightarrow> Inr (msg, Some y))
        else Inr (msg, the_year))"

text \<open>Lines 280 to 289: the classification, from the two long dates of the record.\<close>

definition classify :: "dt_msg \<Rightarrow> check" where
  "classify msg =
     (if truthy (EXIF_L msg) \<and> truthy (META_L msg) then
        (if EXIF_L msg = META_L msg then BOTH else D_ERR)
      else (if truthy (EXIF_L msg) then EXIF else META))"

text \<open>
  Lines 290 to 292: the year test, guarded by the classes \<open>BOTH\<close>, \<open>EXIF\<close> and
  \<open>META\<close>. \<open>this_year\<close> is \<open>time.localtime().tm_year\<close>, an input of the model.
\<close>

definition year_gate :: "nat \<Rightarrow> nat \<Rightarrow> nat option \<Rightarrow> check \<Rightarrow> exn + check" where
  "year_gate begin_year this_year the_year c =
     (if c = BOTH \<or> c = EXIF \<or> c = META then
        (case the_year of
           None \<Rightarrow> Inl UnboundLocalError
         | Some y \<Rightarrow> Inr (if y < begin_year \<or> y > this_year then Y_ERR else c))
      else Inr c)"

definition get_datetime :: "media_file \<Rightarrow> nat \<Rightarrow> nat \<Rightarrow> exn + dt_msg" where
  "get_datetime f begin_year this_year =
     (case get_exif_datetime (exif_read f) EXIF_KEYS of
        Inl e \<Rightarrow> Inl e
      | Inr exif_dt \<Rightarrow>
     (case get_meta_datetime (meta_read f) META_KEYS of
        Inl e \<Rightarrow> Inl e
      | Inr meta_dt \<Rightarrow>
     (case take_exif exif_dt (init_dt_msg, None) of
        Inl e \<Rightarrow> Inl e
      | Inr st \<Rightarrow>
     (case take_meta meta_dt st of
        Inl e \<Rightarrow> Inl e
      | Inr (msg, the_year) \<Rightarrow>
          if d_stat msg = 0 then
            (case year_gate begin_year this_year the_year (classify msg) of
               Inl e \<Rightarrow> Inl e
             | Inr c \<Rightarrow> Inr (msg\<lparr>d_check := Some c\<rparr>))
          else Inr msg))))"

text \<open>
  The classification table of the specification, in its words: both sources valid with
  equal long forms, both valid with different long forms, exactly one valid, none valid.
  It is compared with \<open>classify\<close> in the properties below.
\<close>

definition spec_classification :: "bool \<Rightarrow> bool \<Rightarrow> bool \<Rightarrow> check option" where
  "spec_classification exif_valid meta_valid long_equal =
     (if exif_valid \<and> meta_valid then (if long_equal then Some BOTH else Some D_ERR)
      else if exif_valid then Some EXIF
      else if meta_valid then Some META
      else None)"

text \<open>
  The canonical date strings of the specification: zero-padded \<open>YYYY:MM:DD HH:MM:SS\<close>
  with the year from 1900 to 2050, the month from 1 to 12, the day from 1 to 31, the
  hour up to 23, minute and second up to 59.
\<close>

fun is_canonical :: "str \<Rightarrow> bool" where
  "is_canonical [y1, y2, y3, y4, c1, m1, m2, c2, d1, d2, sp, h1, h2, c3, n1, n2, c4, s1, s2] =
     (is_digit y1 \<and> is_digit y2 \<and> is_digit y3 \<and> is_digit y4 \<and> c1 = 58
      \<and> is_digit m1 \<and> is_digit m2 \<and> c2 = 58 \<and> is_digit d1 \<and> is_digit d2 \<and> sp = 32
      \<and> is_digit h1 \<and> is_digit h2 \<and> c3 = 58 \<and> is_digit n1 \<and> is_digit n2 \<and> c4 = 58
      \<and> is_digit s1 \<and> is_digit s2
      \<and> 1900 \<le> py_int [y1, y2, y3, y4] \<and> py_int [y1, y2, y3, y4] \<le> 2050
      \<and> 1 \<le> py_int [m1, m2] \<and> py_int [m1, m2] \<le> 12
      \<and> 1 \<le> py_int [d1, d2] \<and> py_int [d1, d2] \<le> 31
      \<and> py_int [h1, h2] \<le> 23 \<and> py_int [n1, n2] \<le> 59 \<and> py_int [s1, s2] \<le> 59)"
| "is_canonical _ = False"

section \<open>tidy.py: constants and the ledger\<close>

text \<open>
  \<open>s.split('/')\<close>, \<open>s.endswith(p)\<close>, and the basename and stem of
  \<open>os.path.splitext\<close>: the extension starts at the last dot, unless only dots come
  before it.
\<close>

fun split_on :: "nat \<Rightarrow> str \<Rightarrow> str list" where
  "split_on c [] = [[]]"
| "split_on c (x # xs) =
     (if x = c then [] # split_on c xs
      else (case split_on c xs of w # ws \<Rightarrow> (x # w) # ws | [] \<Rightarrow> [[x]]))"

definition endswith :: "str \<Rightarrow> str \<Rightarrow> bool" where
  "endswith s p \<longleftrightarrow> length p \<le> length s \<and> drop (length s - length p) s = p"

definition splitext_stem :: "str \<Rightarrow> str" where
  "splitext_stem p =
     (let after = dropWhile (\<lambda>c. c \<noteq> 46) (rev p) in
      if after = [] then p
      else (let stem = rev (tl after) in if \<exists>c\<in>set stem. c \<noteq> 46 then stem else p))"

text \<open>
  A path is the list of its components, relative to the output directory that \<open>main\<close>
  changes into: \<open>os.path.join\<close> appends the non-empty components,
  \<open>os.path.basename\<close> is the last component, \<open>os.path.split\<close> gives the components
  before the last one. The empty path is the empty string.
\<close>

type_synonym path = "str list"

definition path_join :: "str list \<Rightarrow> path" where
  "path_join comps = filter (\<lambda>c. c \<noteq> []) comps"

definition basename :: "path \<Rightarrow> str" where
  "basename p = (if p = [] then [] else last p)"

definition FILE_CATEGORY :: "(str \<times> str) list" where
  "FILE_CATEGORY =
     [(ascii ''image_with_datetime'', ascii ''Photos_bydt''),
      (ascii ''image_without_datetime'', ascii ''Photos_nodt''),
      (ascii ''video_with_datetime'', ascii ''Photos_bydt''),
      (ascii ''video_without_datetime'', ascii ''Videos_nodt''),
      (ascii ''year_err'', ascii ''Year_err''),
      (ascii ''other'', ascii ''Other_files'')]"

text \<open>Lines 71 to 76: the directories that get year and month subdirectories.\<close>

definition DATE_DIRS :: "str list" where
  "DATE_DIRS =
     foldl (\<lambda>acc (key, t_dir).
              if endswith key (ascii ''with_datetime'') \<and> t_dir \<notin> set acc then acc @ [t_dir]
              else acc) [] FILE_CATEGORY"

text \<open>
  The 14 column names of the ledger (\<open>_COLS_SET\<close>), as code points: file path, file
  type, extension, file size, MD5 value, date check, then key, raw date, short date
  and long date of EXIF and of META.
\<close>

definition COLS_SET :: "str list" where
  "COLS_SET =
     [[25991, 20214, 36335, 24452],
      [25991, 20214, 31867, 22411],
      [25193, 23637, 21517],
      [25991, 20214, 22823, 23567],
      [77, 68, 53, 20540],
      [26085, 26399, 26657, 39564],
      [69, 88, 73, 70, 26085, 26399, 39033],
      [69, 88, 73, 70, 21407, 26085, 26399],
      [69, 88, 73, 70, 30701, 26085, 26399],
      [69, 88, 73, 70, 38271, 26085, 26399],
      [77, 69, 84, 65, 26085, 26399, 39033],
      [77, 69, 84, 65, 21407, 26085, 26399],
      [77, 69, 84, 65, 30701, 26085, 26399],
      [77, 69, 84, 65, 38271, 26085, 26399]]"

text \<open>
  A row of the ledger as \<open>pandas\<close> reads it. A cell that \<open>collect.py\<close> left empty is
  \<open>None\<close>. The size is only stored and compared.
\<close>

record row =
  r_path :: path
  r_type :: str
  r_ext :: str
  r_size :: "nat option"
  r_md5 :: "str option"
  r_check :: "check option"
  r_exif_key :: "str option"
  r_exif_raw :: "str option"
  r_exif_short :: "str option"
  r_exif_long :: "str option"
  r_meta_key :: "str option"
  r_meta_raw :: "str option"
  r_meta_short :: "str option"
  r_meta_long :: "str option"

definition chk_cols :: "str list \<Rightarrow> str list \<Rightarrow> bool" where
  "chk_cols columns cols_set \<longleftrightarrow> tl columns = cols_set"

section \<open>tidy.py: chk_duplicate\<close>

text \<open>
  \<open>_D_COLS_SET\<close>: extension, size and MD5 value. \<open>duplicated(keys, keep=False)\<close> of
  \<open>pandas\<close> marks every row whose key occurs in another row as well;
  \<open>drop_duplicates(keys)\<close> keeps, in order, the rows whose key no earlier row has.
\<close>

definition dup_key :: "row \<Rightarrow> str \<times> nat option \<times> str option" where
  "dup_key r = (r_ext r, r_size r, r_md5 r)"


fun drop_seen :: "(str \<times> nat option \<times> str option) list \<Rightarrow> row list \<Rightarrow> row list" where
  "drop_seen seen [] = []"
| "drop_seen seen (r # rs) =
     (if dup_key r \<in> set seen then drop_seen seen rs
      else r # drop_seen (dup_key r # seen) rs)"

definition drop_duplicates :: "row list \<Rightarrow> row list" where
  "drop_duplicates df = drop_seen [] df"

text \<open>
  The prompt of lines 222 to 224: \<open>input\<close> is read again until it is \<open>YES\<close>, \<open>NO\<close>
  or \<open>EXIT\<close>. The answers typed are an input of the model; \<open>input\<close> raises
  \<open>EOFError\<close> when they run out.
\<close>

fun read_sel :: "str list \<Rightarrow> exn + str" where
  "read_sel [] = Inl EOFError"
| "read_sel (sel # answers) =
     (if sel \<in> set [ascii ''YES'', ascii ''NO'', ascii ''EXIT''] then Inr sel
      else read_sel answers)"

definition chk_duplicate :: "row list \<Rightarrow> str list \<Rightarrow> exn + row list" where
  "chk_duplicate file_dataframe answers =
     (case read_sel answers of
        Inl e \<Rightarrow> Inl e
      | Inr sel \<Rightarrow>
          if sel = ascii ''YES'' then Inr (drop_duplicates file_dataframe)
          else if sel = ascii ''NO'' then Inr file_dataframe
          else Inl SystemExit)"


section \<open>tidy.py: pick_num\<close>

text \<open>
  The four substitutions of \<open>pick_num\<close>: the letters are dropped, then the underscores
  at the start, then the underscores at the end (\<open>$\<close> also matches before a final
  newline), then every run of two or more underscores becomes one underscore.
\<close>

definition strip_trailing :: "str \<Rightarrow> str" where
  "strip_trailing s = rev (dropWhile (\<lambda>c. c = 95) (rev s))"

definition sub_trailing :: "str \<Rightarrow> str" where
  "sub_trailing s =
     (if s \<noteq> [] \<and> last s = 10 then strip_trailing (butlast s) @ [10] else strip_trailing s)"

fun collapse :: "str \<Rightarrow> str" where
  "collapse (a # b # r) = (if a = 95 \<and> b = 95 then collapse (b # r) else a # collapse (b # r))"
| "collapse s = s"

definition pick_num :: "str \<Rightarrow> str" where
  "pick_num fname =
     (let result = strip_letters fname;
          result = dropWhile (\<lambda>c. c = 95) result;
          result = sub_trailing result;
          result = collapse result
      in result)"

section \<open>The file system\<close>

text \<open>
  The directories and the files under the output directory and the files of the
  ledger, by path. \<open>os.listdir\<close> gives the names directly under a directory;
  \<open>os.path.exists('')\<close> is false.
\<close>

datatype content = Data nat | Sheet

record fs =
  dirs :: "path list"
  files :: "(path \<times> content) list"

definition is_dir :: "fs \<Rightarrow> path \<Rightarrow> bool" where
  "is_dir s p \<longleftrightarrow> p \<in> set (dirs s)"

definition is_file :: "fs \<Rightarrow> path \<Rightarrow> bool" where
  "is_file s p \<longleftrightarrow> map_of (files s) p \<noteq> None"

definition exists :: "fs \<Rightarrow> path \<Rightarrow> bool" where
  "exists s p \<longleftrightarrow> p \<noteq> [] \<and> (is_dir s p \<or> is_file s p)"

definition entries :: "fs \<Rightarrow> path \<Rightarrow> str list" where
  "entries s d =
     remdups (map last (filter (\<lambda>p. p \<noteq> [] \<and> butlast p = d) (dirs s @ map fst (files s))))"

definition listdir :: "fs \<Rightarrow> path \<Rightarrow> exn + str list" where
  "listdir s d =
     (if is_dir s d then Inr (entries s d)
      else if is_file s d then Inl NotADirectoryError
      else Inl FileNotFoundError)"

definition mkdir :: "fs \<Rightarrow> path \<Rightarrow> exn + fs" where
  "mkdir s d =
     (if d = [] \<or> exists s d then Inl FileExistsError
      else if butlast d \<noteq> [] \<and> \<not> is_dir s (butlast d) then Inl FileNotFoundError
      else Inr (s\<lparr>dirs := dirs s @ [d]\<rparr>))"

definition rmdir :: "fs \<Rightarrow> path \<Rightarrow> fs" where
  "rmdir s d = s\<lparr>dirs := removeAll d (dirs s)\<rparr>"

definition write_file :: "fs \<Rightarrow> path \<Rightarrow> content \<Rightarrow> fs" where
  "write_file s p c = s\<lparr>files := AList.update p c (files s)\<rparr>"

definition remove_file :: "fs \<Rightarrow> path \<Rightarrow> fs" where
  "remove_file s p = s\<lparr>files := AList.delete p (files s)\<rparr>"

text \<open>
  \<open>shutil.copyfile\<close> and \<open>shutil.move\<close>, for a source that is a file (the ledger
  lists files): \<open>None\<close> when the library raises. Copying needs a source file, a
  different target that is not a directory, and the target's directory; moving into
  an existing directory puts the file inside it under its own name.
\<close>

definition copyfile :: "fs \<Rightarrow> path \<Rightarrow> path \<Rightarrow> fs option" where
  "copyfile s src dst =
     (case map_of (files s) src of
        None \<Rightarrow> None
      | Some c \<Rightarrow>
          if src = dst \<or> dst = [] \<or> is_dir s dst then None
          else if butlast dst \<noteq> [] \<and> \<not> is_dir s (butlast dst) then None
          else Some (write_file s dst c))"

definition move :: "fs \<Rightarrow> path \<Rightarrow> path \<Rightarrow> fs option" where
  "move s src dst =
     (case map_of (files s) src of
        None \<Rightarrow> None
      | Some c \<Rightarrow>
          (let real_dst = (if is_dir s dst then dst @ [basename src] else dst) in
           if is_dir s dst \<and> exists s real_dst then None
           else if real_dst = [] \<or> is_dir s real_dst then None
           else if butlast real_dst \<noteq> [] \<and> \<not> is_dir s (butlast real_dst) then None
           else if real_dst = src then Some s
           else Some (write_file (remove_file s src) real_dst c)))"

section \<open>tidy.py: move_file\<close>

text \<open>
  The reason that \<open>move_file\<close> returns is a message; its four kinds are kept, without
  the text. \<open>None\<close> is success.
\<close>

datatype reason = No_source_path | No_target_dir | Move_error | Copy_error

definition move_file :: "fs \<Rightarrow> path \<Rightarrow> path \<Rightarrow> bool \<Rightarrow> fs \<times> reason option" where
  "move_file s input_path output_path remove =
     (if input_path = [] then (s, Some No_source_path)
      else
        (let output_dir = butlast output_path in
         if \<not> exists s output_dir \<and> output_dir \<noteq> [] then (s, Some No_target_dir)
         else if remove then
           (case move s input_path output_path of
              None \<Rightarrow> (s, Some Move_error)
            | Some s' \<Rightarrow> (s', None))
         else
           (case copyfile s input_path output_path of
              None \<Rightarrow> (s, Some Copy_error)
            | Some s' \<Rightarrow> (s', None))))"

section \<open>tidy.py: reorgnize_file\<close>

text \<open>
  How an f-string prints a cell of the ledger (an empty cell is the float \<open>nan\<close>) and
  the variable \<open>confi\<close> (initially \<open>None\<close>).
\<close>

definition fmt_cell :: "str option \<Rightarrow> str" where
  "fmt_cell v = (case v of None \<Rightarrow> ascii ''nan'' | Some t \<Rightarrow> t)"

definition fmt_confi :: "str option \<Rightarrow> str" where
  "fmt_confi v = (case v of None \<Rightarrow> ascii ''None'' | Some t \<Rightarrow> t)"

text \<open>
  The target of a dated file, lines 319 and 320 and their three repetitions: the
  directory of the category followed by the components of the short date, and the name
  \<open>IMG_<long>_<confi>_<seq>.<ext>\<close> where \<open>seq\<close> is the number of entries of the
  directory plus one, printed with \<open>:05\<close>. \<open>split\<close> on an empty cell raises
  \<open>AttributeError\<close>, \<open>os.listdir\<close> raises when the directory is missing.
\<close>

definition dated_target ::
  "fs \<Rightarrow> str \<Rightarrow> str option \<Rightarrow> str option \<Rightarrow> str option \<Rightarrow> str \<Rightarrow> exn + path \<times> path" where
  "dated_target s target_key short long confi ext =
     (case map_of FILE_CATEGORY target_key of
        None \<Rightarrow> Inl KeyError
      | Some category \<Rightarrow>
     (case short of
        None \<Rightarrow> Inl AttributeError
      | Some sh \<Rightarrow>
         (let target_dir = path_join (split_on 47 category @ split_on 47 sh) in
          case listdir s target_dir of
            Inl e \<Rightarrow> Inl e
          | Inr es \<Rightarrow>
              Inr (target_dir,
                   target_dir @ [ascii ''IMG_'' @ fmt_cell long @ [95] @ fmt_confi confi @ [95]
                                 @ fmt0 5 (length es + 1) @ [46] @ ext]))))"

text \<open>
  The target of the other three branches, lines 375 to 386: the directory of the
  category and the name \<open><front>_<seq>.<ext>\<close>.
\<close>

definition plain_target :: "fs \<Rightarrow> str \<Rightarrow> str \<Rightarrow> str \<Rightarrow> exn + path \<times> path" where
  "plain_target s target_key front ext =
     (case map_of FILE_CATEGORY target_key of
        None \<Rightarrow> Inl KeyError
      | Some category \<Rightarrow>
         (let target_dir = path_join (split_on 47 category) in
          case listdir s target_dir of
            Inl e \<Rightarrow> Inl e
          | Inr es \<Rightarrow>
              Inr (target_dir,
                   target_dir @ [front @ [95] @ fmt0 5 (length es + 1) @ [46] @ ext])))"

text \<open>
  Lines 345 to 365: the side of a \<open>D_ERR\<close> row and its tier letter. When neither key
  is one of the known keys, \<open>chose\<close> stays \<open>None\<close> and the concatenation of line 365
  raises \<open>TypeError\<close>.
\<close>

definition choose_side :: "str option \<Rightarrow> str option \<Rightarrow> exn + str \<times> str" where
  "choose_side exif_key meta_key =
     (if exif_key = Some (EXIF_KEYS ! 0) \<or> meta_key = Some (META_KEYS ! 0) then
        Inr (if exif_key = Some (EXIF_KEYS ! 0) then ascii ''EXIF'' else ascii ''META'', ascii ''U'')
      else if exif_key = Some (EXIF_KEYS ! 1) \<or> meta_key = Some (META_KEYS ! 1) then
        Inr (if exif_key = Some (EXIF_KEYS ! 1) then ascii ''EXIF'' else ascii ''META'', ascii ''H'')
      else if exif_key = Some (EXIF_KEYS ! 2) \<or> meta_key = Some (META_KEYS ! 2) then
        Inr (if exif_key = Some (EXIF_KEYS ! 2) then ascii ''EXIF'' else ascii ''META'', ascii ''N'')
      else Inl TypeError)"

text \<open>
  Lines 305 to 386, one turn of the loop up to the call of \<open>move_file\<close>: the new value
  of \<open>confi\<close>, the target directory, the target path, and whether the row goes to the
  year table. \<open>confi\<close> keeps its value from the previous row where no branch assigns
  it.
\<close>

record plan =
  p_confi :: "str option"
  p_dir :: path
  p_path :: path
  p_yerr :: bool

definition mk_plan :: "str option \<Rightarrow> bool \<Rightarrow> path \<times> path \<Rightarrow> plan" where
  "mk_plan confi yerr t = \<lparr>p_confi = confi, p_dir = fst t, p_path = snd t, p_yerr = yerr\<rparr>"

definition plan_row :: "fs \<Rightarrow> str option \<Rightarrow> row \<Rightarrow> exn + plan" where
  "plan_row s confi f =
     (let file_basename = basename (r_path f);
          file_name = splitext_stem file_basename
      in
      if r_check f = Some EXIF then
        (let confi =
               (if r_exif_key f = Some (EXIF_KEYS ! 0) then Some (ascii ''EXIF_U'')
                else if r_exif_key f = Some (EXIF_KEYS ! 1) then Some (ascii ''EXIF_H'')
                else if r_exif_key f = Some (EXIF_KEYS ! 2) then Some (ascii ''EXIF_N'')
                else confi)
         in map_sum id (mk_plan confi False)
              (dated_target s (r_type f @ ascii ''_with_datetime'') (r_exif_short f)
                 (r_exif_long f) confi (r_ext f)))
      else if r_check f = Some META then
        (let confi =
               (if r_meta_key f = Some (META_KEYS ! 0) then Some (ascii ''META_U'')
                else if r_meta_key f = Some (META_KEYS ! 1) then Some (ascii ''META_H'')
                else if r_meta_key f = Some (META_KEYS ! 2) then Some (ascii ''META_N'')
                else confi)
         in map_sum id (mk_plan confi False)
              (dated_target s (r_type f @ ascii ''_with_datetime'') (r_meta_short f)
                 (r_meta_long f) confi (r_ext f)))
      else if r_check f = Some BOTH then
        (let confi =
               (if r_exif_key f = Some (EXIF_KEYS ! 0) \<or> r_meta_key f = Some (META_KEYS ! 0)
                  then Some (ascii ''BOTH_U'')
                else if r_exif_key f = Some (EXIF_KEYS ! 1) \<or> r_meta_key f = Some (META_KEYS ! 1)
                  then Some (ascii ''BOTH_H'')
                else if r_exif_key f = Some (EXIF_KEYS ! 2) \<or> r_meta_key f = Some (META_KEYS ! 2)
                  then Some (ascii ''BOTH_N'')
                else confi)
         in map_sum id (mk_plan confi False)
              (dated_target s (r_type f @ ascii ''_with_datetime'') (r_exif_short f)
                 (r_exif_long f) confi (r_ext f)))
      else if r_check f = Some D_ERR then
        (case choose_side (r_exif_key f) (r_meta_key f) of
           Inl e \<Rightarrow> Inl e
         | Inr (chose, tier) \<Rightarrow>
            (let confi = Some (ascii ''D_'' @ chose @ [95] @ tier) in
             if chose = ascii ''EXIF'' then
               map_sum id (mk_plan confi False)
                 (dated_target s (r_type f @ ascii ''_with_datetime'') (r_exif_short f)
                    (r_exif_long f) confi (r_ext f))
             else
               map_sum id (mk_plan confi False)
                 (dated_target s (r_type f @ ascii ''_with_datetime'') (r_meta_short f)
                    (r_meta_long f) confi (r_ext f))))
      else if r_check f = Some Y_ERR then
        map_sum id (mk_plan confi True) (plain_target s (ascii ''year_err'') file_name (r_ext f))
      else if r_type f \<noteq> ascii ''other'' then
        map_sum id (mk_plan confi False)
          (plain_target s (r_type f @ ascii ''_without_datetime'')
             (ascii ''IMG_'' @ pick_num file_name @ ascii ''_NODT'') (r_ext f))
      else
        map_sum id (mk_plan confi False) (plain_target s (ascii ''other'') file_name (r_ext f)))"

text \<open>
  The state of the loop of \<open>reorgnize_file\<close> and one turn of it, lines 304 to 394. A
  row of the year table holds the source path, the target path, the size and the keys
  and long dates of both sources; a row of the failure table the source path, the
  target path, the flag \<open>remove\<close>, the size and the reason.
\<close>

type_synonym yerr_file = "path \<times> path \<times> nat option \<times> str option \<times> str option \<times> str option \<times> str option"

type_synonym failed_file = "path \<times> path \<times> bool \<times> nat option \<times> reason"

record tidy_state =
  t_fs :: fs
  t_confi :: "str option"
  success :: nat
  fail :: nat
  yerr_files :: "yerr_file list"
  failed_files :: "failed_file list"

definition place_row :: "bool \<Rightarrow> row \<Rightarrow> tidy_state \<Rightarrow> exn + tidy_state" where
  "place_row remove f st =
     (case plan_row (t_fs st) (t_confi st) f of
        Inl e \<Rightarrow> Inl e
      | Inr pl \<Rightarrow>
         (let source_path = r_path f;
              target_path = p_path pl;
              st = st\<lparr>t_confi := p_confi pl\<rparr>;
              st = (if p_yerr pl then
                      st\<lparr>yerr_files := yerr_files st @
                            [(source_path, target_path, r_size f, r_exif_key f, r_exif_long f,
                              r_meta_key f, r_meta_long f)]\<rparr>
                    else st)
          in case move_file (t_fs st) source_path target_path remove of
               (s', None) \<Rightarrow> Inr (st\<lparr>t_fs := s', success := success st + 1\<rparr>)
             | (s', Some failed_reason) \<Rightarrow>
                 Inr (st\<lparr>t_fs := s', fail := fail st + 1,
                          failed_files := failed_files st @
                            [(source_path, target_path, remove, r_size f, failed_reason)]\<rparr>)))"

fun place_rows :: "bool \<Rightarrow> row list \<Rightarrow> tidy_state \<Rightarrow> exn + tidy_state" where
  "place_rows remove [] st = Inr st"
| "place_rows remove (f # fs) st =
     (case place_row remove f st of
        Inl e \<Rightarrow> Inl e
      | Inr st' \<Rightarrow> place_rows remove fs st')"

text \<open>Writing a table with \<open>to_excel\<close> creates a file in an existing directory.\<close>

definition to_excel :: "fs \<Rightarrow> path \<Rightarrow> exn + fs" where
  "to_excel s p =
     (if butlast p \<noteq> [] \<and> \<not> is_dir s (butlast p) then Inl FileNotFoundError
      else Inr (write_file s p Sheet))"

definition reorgnize_file :: "fs \<Rightarrow> row list \<Rightarrow> bool \<Rightarrow> exn + tidy_state" where
  "reorgnize_file s file_dataframe remove =
     (case place_rows remove file_dataframe
             \<lparr>t_fs = s, t_confi = None, success = 0, fail = 0, yerr_files = [],
              failed_files = []\<rparr> of
        Inl e \<Rightarrow> Inl e
      | Inr st \<Rightarrow>
     (case (if failed_files st \<noteq> [] then to_excel (t_fs st) [ascii ''failed_files_df.xlsx'']
            else Inr (t_fs st)) of
        Inl e \<Rightarrow> Inl e
      | Inr s1 \<Rightarrow>
     (case (if yerr_files st \<noteq> []
            then (case map_of FILE_CATEGORY (ascii ''year_err'') of
                    None \<Rightarrow> Inl KeyError
                  | Some category \<Rightarrow>
                      to_excel s1 (path_join (split_on 47 category
                                              @ split_on 47 (ascii ''year_err_df.xlsx''))))
            else Inr s1) of
        Inl e \<Rightarrow> Inl e
      | Inr s2 \<Rightarrow> Inr (st\<lparr>t_fs := s2\<rparr>))))"

section \<open>tidy.py: the directories and main\<close>

fun for_each :: "('a \<Rightarrow> fs \<Rightarrow> exn + fs) \<Rightarrow> 'a list \<Rightarrow> fs \<Rightarrow> exn + fs" where
  "for_each body [] s = Inr s"
| "for_each body (x # xs) s =
     (case body x s of Inl e \<Rightarrow> Inl e | Inr s' \<Rightarrow> for_each body xs s')"

definition mkdir_if_missing :: "path \<Rightarrow> fs \<Rightarrow> exn + fs" where
  "mkdir_if_missing directory s = (if \<not> exists s directory then mkdir s directory else Inr s)"

definition mk_category_dirs :: "(str \<times> str) list \<Rightarrow> fs \<Rightarrow> exn + fs" where
  "mk_category_dirs file_category s =
     for_each (\<lambda>category. mkdir_if_missing (path_join (split_on 47 category)))
       (map snd file_category) s"

definition mk_date_dirs :: "str list \<Rightarrow> nat \<Rightarrow> nat \<Rightarrow> fs \<Rightarrow> exn + fs" where
  "mk_date_dirs date_dirs begin_year this_year s =
     for_each (\<lambda>date_dir.
         for_each (\<lambda>i s.
             case mkdir_if_missing (path_join (split_on 47 date_dir @ [str_nat i])) s of
               Inl e \<Rightarrow> Inl e
             | Inr s' \<Rightarrow>
                 for_each (\<lambda>j. mkdir_if_missing
                                  (path_join (split_on 47 date_dir @ [str_nat i, fmt0 2 j])))
                   [1..<13] s')
           [begin_year..<this_year + 1])
       date_dirs s"

definition rmdir_if_empty :: "path \<Rightarrow> fs \<Rightarrow> exn + fs" where
  "rmdir_if_empty directory s =
     (case listdir s directory of
        Inl e \<Rightarrow> Inl e
      | Inr es \<Rightarrow> if es = [] then Inr (rmdir s directory) else Inr s)"

definition rm_date_dirs :: "str list \<Rightarrow> nat \<Rightarrow> nat \<Rightarrow> fs \<Rightarrow> exn + fs" where
  "rm_date_dirs date_dirs begin_year this_year s =
     for_each (\<lambda>date_dir s.
         case for_each (\<lambda>i.
                  for_each (\<lambda>j. rmdir_if_empty
                                   (path_join (split_on 47 date_dir @ [str_nat i, fmt0 2 j])))
                    [1..<13])
                [begin_year..<this_year + 1] s of
           Inl e \<Rightarrow> Inl e
         | Inr s' \<Rightarrow>
             for_each (\<lambda>i. rmdir_if_empty (path_join (split_on 47 date_dir @ [str_nat i])))
               [begin_year..<this_year + 1] s')
       date_dirs s"

text \<open>
  \<open>main(target_dir, remove)\<close>, from the change into the output directory on. The
  ledger file is \<open>None\<close> when it does not exist, else its column names (with the index
  column first) and its rows. Line 431 calls \<open>reorgnize_file\<close> with the constant
  \<open>remove=False\<close>: the parameter \<open>remove\<close> of \<open>main\<close> is not used.
\<close>

definition main ::
  "fs \<Rightarrow> (str list \<times> row list) option \<Rightarrow> str list \<Rightarrow> nat \<Rightarrow> bool \<Rightarrow> exn + tidy_state" where
  "main s xlsx answers this_year remove =
     (case xlsx of
        None \<Rightarrow> Inl SystemExit
      | Some (columns, file_dataframe) \<Rightarrow>
          if \<not> chk_cols columns COLS_SET then Inl SystemExit
          else
     (case chk_duplicate file_dataframe answers of
        Inl e \<Rightarrow> Inl e
      | Inr chked_dataframe \<Rightarrow>
     (case mk_category_dirs FILE_CATEGORY s of
        Inl e \<Rightarrow> Inl e
      | Inr s1 \<Rightarrow>
     (case mk_date_dirs DATE_DIRS 2000 this_year s1 of
        Inl e \<Rightarrow> Inl e
      | Inr s2 \<Rightarrow>
     (case reorgnize_file s2 chked_dataframe False of
        Inl e \<Rightarrow> Inl e
      | Inr st \<Rightarrow>
     (case rm_date_dirs DATE_DIRS 2000 this_year (t_fs st) of
        Inl e \<Rightarrow> Inl e
      | Inr s3 \<Rightarrow> Inr (st\<lparr>t_fs := s3\<rparr>)))))))"


section \<open>Example inputs\<close>

text \<open>
  Ledger rows as \<open>collect.py\<close> writes them for a JPEG image of 10 KB: one without
  dates, one whose only date is the EXIF original date 2000:04:01 15:25:38, and one
  whose EXIF digitized date and META original date differ.
\<close>

definition undated_image :: "path \<Rightarrow> str \<Rightarrow> row" where
  "undated_image p md5 =
     \<lparr>r_path = p, r_type = ascii ''image'', r_ext = ascii ''jpg'', r_size = Some 10,
      r_md5 = Some md5, r_check = None,
      r_exif_key = None, r_exif_raw = None, r_exif_short = None, r_exif_long = None,
      r_meta_key = None, r_meta_raw = None, r_meta_short = None, r_meta_long = None\<rparr>"

definition dated_image :: "path \<Rightarrow> str \<Rightarrow> row" where
  "dated_image p md5 =
     \<lparr>r_path = p, r_type = ascii ''image'', r_ext = ascii ''jpg'', r_size = Some 10,
      r_md5 = Some md5, r_check = Some EXIF,
      r_exif_key = Some (ascii ''EXIF DateTimeOriginal''),
      r_exif_raw = Some (ascii ''2000:04:01 15:25:38''),
      r_exif_short = Some (ascii ''2000/04''), r_exif_long = Some (ascii ''20000401_152538''),
      r_meta_key = None, r_meta_raw = None, r_meta_short = None, r_meta_long = None\<rparr>"

definition mismatch_image :: "path \<Rightarrow> str \<Rightarrow> row" where
  "mismatch_image p md5 =
     \<lparr>r_path = p, r_type = ascii ''image'', r_ext = ascii ''jpg'', r_size = Some 10,
      r_md5 = Some md5, r_check = Some D_ERR,
      r_exif_key = Some (ascii ''EXIF DateTimeDigitized''),
      r_exif_raw = Some (ascii ''2000:04:01 15:25:38''),
      r_exif_short = Some (ascii ''2000/04''), r_exif_long = Some (ascii ''20000401_152538''),
      r_meta_key = Some (ascii ''Date-time original''),
      r_meta_raw = Some (ascii ''2000-03-31 09:00:00''),
      r_meta_short = Some (ascii ''2000/03''), r_meta_long = Some (ascii ''20000331_090000'')\<rparr>"

text \<open>
  An output directory in which the category directory of dated images and its
  subdirectories for March and April 2000 exist and are empty.
\<close>

definition dated_dirs :: "path list" where
  "dated_dirs =
     [[ascii ''Photos_bydt''], [ascii ''Photos_bydt'', ascii ''2000''],
      [ascii ''Photos_bydt'', ascii ''2000'', ascii ''03''],
      [ascii ''Photos_bydt'', ascii ''2000'', ascii ''04'']]"

section \<open>Properties of collect.py\<close>

subsection \<open>Evaluation at concrete inputs\<close>

lemmas string_eval = ascii_def strip_letters_def cjk_or_latin_def replace_char_def
  is_digit_def is_space_def py_int_def fmt0_def str_nat.simps

lemmas process_datetime_eval = process_datetime_def match_core_def parse_core_def string_eval

lemmas extractor_eval = get_exif_datetime_def get_meta_datetime_def extract_date_def
  truthy_def init_msg_def strptime_def strftime_short_def strftime_long_def EXIF_KEYS_def
  META_KEYS_def days_in_month_def is_leap_def startswith_def

lemmas get_datetime_eval = get_datetime_def take_exif_def take_meta_def init_dt_msg_def
  year_of_short_def classify_def year_gate_def

text \<open>
  C1. The claim: when the date-time pattern does not match, \<open>process_datetime\<close> returns
  \<open>None\<close> and does not raise, and \<open>get_datetime\<close> always returns normally. The code
  does otherwise. On the raw text \<open>2021:04:05\<close> (a date without a time) the pattern
  does not match, \<open>re.search\<close> gives \<open>None\<close>, and \<open>datetime.group('year')\<close> raises
  \<open>AttributeError\<close>: the test \<open>if not datetime: return None\<close> is commented out and
  the \<open>try\<close> block only covers \<open>re.search\<close>. Neither extractor nor \<open>get_datetime\<close>
  catches it.
\<close>

theorem no_match_raises:
  "process_datetime (ascii ''2021:04:05'') = Inl AttributeError
   \<and> get_exif_datetime (Decoded [(ascii ''EXIF DateTimeOriginal'', ascii ''2021:04:05'')]) EXIF_KEYS
       = Inl AttributeError
   \<and> get_meta_datetime (Decoded [ascii ''Creation date: 2021-04-05'']) META_KEYS
       = Inl AttributeError
   \<and> get_datetime \<lparr>exif_read = Decoded [(ascii ''EXIF DateTimeOriginal'', ascii ''2021:04:05'')],
                    meta_read = Unreadable\<rparr> 2000 2026 = Inl AttributeError"
  by (simp add: process_datetime_eval extractor_eval get_datetime_eval)

text \<open>
  C2. The claim: a raw date that passes the field checks of \<open>process_datetime\<close> but not
  the calendar, such as the 31st of April, gives the status of an invalid date (4) and
  no exception leaves the extractor. The code does otherwise: \<open>process_datetime\<close>
  renders \<open>2021:04:31 10:00:00\<close>, \<open>time.strptime\<close> raises \<open>ValueError\<close> on it, and
  the call is outside every \<open>try\<close> block of \<open>get_exif_datetime\<close> and
  \<open>get_meta_datetime\<close>.
\<close>

theorem impossible_day_raises:
  "process_datetime (ascii ''2021:04:31 10:00:00'') = Inr (Some (ascii ''2021:04:31 10:00:00''))
   \<and> strptime (ascii ''2021:04:31 10:00:00'') = Inl ValueError
   \<and> get_exif_datetime (Decoded [(ascii ''EXIF DateTimeOriginal'', ascii ''2021:04:31 10:00:00'')])
        EXIF_KEYS = Inl ValueError
   \<and> get_meta_datetime (Decoded [ascii ''Creation date: 2021-04-31 10:00:00'']) META_KEYS
       = Inl ValueError"
  by (simp add: process_datetime_eval extractor_eval)

text \<open>
  The two evaluations are instances of what the definitions give for every input: no
  match raises, and an error of the second pass leaves the extractor.
\<close>

lemma process_datetime_no_match:
  "re_search (replace_char 47 58 (replace_char 45 58 (strip_letters raw))) = None
   \<Longrightarrow> process_datetime raw = Inl AttributeError"
  by (simp add: process_datetime_def)

lemma extract_date_second_pass:
  "process_datetime raw = Inr (Some pro) \<Longrightarrow> pro \<noteq> [] \<Longrightarrow> strptime pro = Inl e
   \<Longrightarrow> extract_date msg k raw = Inl e"
  by (simp add: extract_date_def truthy_def)

subsection \<open>Decimal rendering and parsing\<close>

lemma py_int_snoc: "py_int (xs @ [c]) = 10 * py_int xs + (c - 48)"
  by (simp add: py_int_def)

lemma py_int_str_nat: "py_int (str_nat n) = n"
proof (induction n rule: str_nat.induct)
  case (1 n)
  show ?case
  proof (cases "n < 10")
    case True
    then show ?thesis by (simp add: str_nat.simps [of n] py_int_def)
  next
    case False
    then have "py_int (str_nat (n div 10)) = n div 10" using 1 by simp
    with False show ?thesis by (simp add: str_nat.simps [of n] py_int_snoc)
  qed
qed

lemma str_nat_digits: "c \<in> set (str_nat n) \<Longrightarrow> is_digit c"
proof (induction n rule: str_nat.induct)
  case (1 n)
  then show ?case
    by (cases "n < 10") (auto simp: str_nat.simps [of n] is_digit_def)
qed

lemma str_nat_nonempty: "str_nat n \<noteq> []"
  by (simp add: str_nat.simps [of n])

lemma length_str_nat_10: "n < 10 \<Longrightarrow> length (str_nat n) = 1"
  by (simp add: str_nat.simps [of n])

lemma length_str_nat_100: "n < 100 \<Longrightarrow> length (str_nat n) \<le> 2"
  by (cases "n < 10") (simp_all add: str_nat.simps [of n] length_str_nat_10)

lemma length_str_nat_1000: "n < 1000 \<Longrightarrow> length (str_nat n) \<le> 3"
  using length_str_nat_100 [of "n div 10"]
  by (cases "n < 10") (simp_all add: str_nat.simps [of n])

lemma length_str_nat_10000: "n < 10000 \<Longrightarrow> length (str_nat n) \<le> 4"
  using length_str_nat_1000 [of "n div 10"]
  by (cases "n < 10") (simp_all add: str_nat.simps [of n])

lemma py_int_zeros: "py_int (replicate k 48 @ xs) = py_int xs"
  by (induction k) (simp_all add: py_int_def)

lemma py_int_fmt0: "py_int (fmt0 w n) = n"
  by (simp add: fmt0_def Let_def py_int_zeros py_int_str_nat)

lemma fmt0_digits: "c \<in> set (fmt0 w n) \<Longrightarrow> is_digit c"
  by (auto simp: fmt0_def Let_def is_digit_def dest: str_nat_digits)

lemma fmt0_nonempty: "fmt0 w n \<noteq> []"
  by (simp add: fmt0_def Let_def str_nat_nonempty)

lemma length_fmt0_4: "n < 10000 \<Longrightarrow> length (fmt0 4 n) = 4"
  using length_str_nat_10000 [of n] by (simp add: fmt0_def Let_def)

lemma year_of_strftime_short:
  "year_of_short (Some (strftime_short t)) = Inr (tm_year t)"
proof -
  have "\<forall>c\<in>set (fmt0 4 (tm_year t)). c \<noteq> 47"
    by (auto dest!: fmt0_digits simp: is_digit_def)
  then have "takeWhile (\<lambda>c. c \<noteq> 47) (fmt0 4 (tm_year t) @ 47 # fmt0 2 (tm_mon t))
               = fmt0 4 (tm_year t)"
    by (simp add: takeWhile_tail)
  then show ?thesis by (simp add: year_of_short_def strftime_short_def py_int_fmt0)
qed

lemma year_of_strftime_long:
  assumes "tm_year t < 10000"
  shows "py_int (take 4 (strftime_long t)) = tm_year t"
  using length_fmt0_4 [OF assms] by (simp add: strftime_long_def py_int_fmt0)

subsection \<open>The results of the extractors\<close>

lemma digits4_bound: "digits4 s = Some (y, r) \<Longrightarrow> py_int y < 10000"
  by (cases s rule: digits4.cases) (auto simp: py_int_def is_digit_def split: if_splits)

lemma parse_core_year: "parse_core s = Some (g, r) \<Longrightarrow> py_int (g_year g) < 10000"
  by (auto simp: parse_core_def bind_eq_Some_conv dest: digits4_bound)

lemma strptime_year:
  assumes "strptime s = Inr t"
  shows "tm_year t < 10000"
proof (cases "parse_core s")
  case None
  with assms show ?thesis by (simp add: strptime_def)
next
  case (Some p)
  obtain g r where p: "p = (g, r)" by (cases p)
  from Some p have "py_int (g_year g) < 10000" by (auto dest: parse_core_year)
  moreover from assms Some p have "tm_year t = py_int (g_year g)"
    by (auto simp: strptime_def Let_def split: if_splits)
  ultimately show ?thesis by simp
qed

lemma truthy_long: "truthy (Some (strftime_long t))"
  by (simp add: truthy_def strftime_long_def fmt0_nonempty)

lemma extract_date_shape:
  assumes "extract_date msg k raw = Inr m"
  shows "(m_stat m = 0 \<and> (\<exists>t. tm_year t < 10000 \<and> m_short m = Some (strftime_short t)
            \<and> m_long m = Some (strftime_long t)))
         \<or> (m_stat m = 4 \<and> m_short m = m_short msg \<and> m_long m = m_long msg)"
  using assms
  by (auto simp: extract_date_def split: sum.splits if_splits dest: strptime_year)

lemma get_exif_datetime_shape:
  assumes "get_exif_datetime f keys = Inr m"
  shows "(m_stat m = 0 \<and> (\<exists>t. tm_year t < 10000 \<and> m_short m = Some (strftime_short t)
            \<and> m_long m = Some (strftime_long t)))
         \<or> (m_stat m \<noteq> 0 \<and> m_short m = None \<and> m_long m = None)"
proof (cases f)
  case Unreadable
  with assms show ?thesis by (auto simp: get_exif_datetime_def init_msg_def)
next
  case (Decoded tags)
  with assms show ?thesis
    by (auto simp: get_exif_datetime_def Let_def init_msg_def
             split: if_splits option.splits dest!: extract_date_shape)
qed

lemma get_meta_datetime_shape:
  assumes "get_meta_datetime f keys = Inr m"
  shows "(m_stat m = 0 \<and> (\<exists>t. tm_year t < 10000 \<and> m_short m = Some (strftime_short t)
            \<and> m_long m = Some (strftime_long t)))
         \<or> (m_stat m \<noteq> 0 \<and> m_short m = None \<and> m_long m = None)"
proof (cases f)
  case Unreadable
  with assms show ?thesis by (auto simp: get_meta_datetime_def init_msg_def)
next
  case (Decoded tags)
  with assms show ?thesis
    by (auto simp: get_meta_datetime_def Let_def init_msg_def
             split: if_splits option.splits dest!: extract_date_shape)
qed

lemma long_year_eq:
  assumes "tm_year t < 10000" "tm_year t' < 10000" "strftime_long t = strftime_long t'"
  shows "tm_year t = tm_year t'"
  using year_of_strftime_long [OF assms(1)] year_of_strftime_long [OF assms(2)] assms(3)
  by simp

lemma strftime_long_nonempty: "strftime_long t \<noteq> []"
  by (simp add: strftime_long_def fmt0_nonempty)

lemma get_datetime_both:
  assumes "get_exif_datetime (exif_read f) EXIF_KEYS = Inr e"
    and "get_meta_datetime (meta_read f) META_KEYS = Inr m"
    and "m_stat e = 0" "m_short e = Some (strftime_short t)" "m_long e = Some (strftime_long t)"
    and "m_stat m = 0" "m_short m = Some (strftime_short t')" "m_long m = Some (strftime_long t')"
  shows "get_datetime f begin_year this_year =
     Inr \<lparr>d_stat = 0,
          d_check = Some (if strftime_long t = strftime_long t'
                          then (if tm_year t' < begin_year \<or> tm_year t' > this_year then Y_ERR else BOTH)
                          else D_ERR),
          EXIF_K = m_key e, EXIF_R = m_raw e, EXIF_S = m_short e, EXIF_L = m_long e,
          META_K = m_key m, META_R = m_raw m, META_S = m_short m, META_L = m_long m\<rparr>"
  using assms
  by (simp add: get_datetime_def take_exif_def take_meta_def init_dt_msg_def
        year_of_strftime_short classify_def truthy_long year_gate_def)

lemma get_datetime_exif_only:
  assumes "get_exif_datetime (exif_read f) EXIF_KEYS = Inr e"
    and "get_meta_datetime (meta_read f) META_KEYS = Inr m"
    and "m_stat e = 0" "m_short e = Some (strftime_short t)" "m_long e = Some (strftime_long t)"
    and "m_stat m \<noteq> 0"
  shows "get_datetime f begin_year this_year =
     Inr \<lparr>d_stat = 0,
          d_check = Some (if tm_year t < begin_year \<or> tm_year t > this_year then Y_ERR else EXIF),
          EXIF_K = m_key e, EXIF_R = m_raw e, EXIF_S = m_short e, EXIF_L = m_long e,
          META_K = None, META_R = None, META_S = None, META_L = None\<rparr>"
  using assms
  by (simp add: get_datetime_def take_exif_def take_meta_def init_dt_msg_def
        year_of_strftime_short classify_def strftime_long_nonempty year_gate_def truthy_def)

lemma get_datetime_meta_only:
  assumes "get_exif_datetime (exif_read f) EXIF_KEYS = Inr e"
    and "get_meta_datetime (meta_read f) META_KEYS = Inr m"
    and "m_stat e \<noteq> 0"
    and "m_stat m = 0" "m_short m = Some (strftime_short t')" "m_long m = Some (strftime_long t')"
  shows "get_datetime f begin_year this_year =
     Inr \<lparr>d_stat = 0,
          d_check = Some (if tm_year t' < begin_year \<or> tm_year t' > this_year then Y_ERR else META),
          EXIF_K = None, EXIF_R = None, EXIF_S = None, EXIF_L = None,
          META_K = m_key m, META_R = m_raw m, META_S = m_short m, META_L = m_long m\<rparr>"
  using assms
  by (simp add: get_datetime_def take_exif_def take_meta_def init_dt_msg_def
        year_of_strftime_short classify_def strftime_long_nonempty year_gate_def truthy_def)

lemma get_datetime_none:
  assumes "get_exif_datetime (exif_read f) EXIF_KEYS = Inr e"
    and "get_meta_datetime (meta_read f) META_KEYS = Inr m"
    and "m_stat e \<noteq> 0" "m_stat m \<noteq> 0"
  shows "get_datetime f begin_year this_year = Inr init_dt_msg"
  using assms
  by (simp add: get_datetime_def take_exif_def take_meta_def init_dt_msg_def)

text \<open>
  C5. Whenever the two extractors return, \<open>get_datetime\<close> returns, and the class it
  computes in lines 280 to 289 is the table of the specification applied to the two
  statuses and the equality of the long forms: \<open>BOTH\<close>, \<open>D_ERR\<close> (the date mismatch),
  \<open>EXIF\<close> or \<open>META\<close>, and no class when neither source is valid. The class written to
  the record is that one, unless the year test of lines 290 to 292 replaces it by
  \<open>Y_ERR\<close>.
\<close>

theorem classification_rule:
  assumes "get_exif_datetime (exif_read f) EXIF_KEYS = Inr e"
    and "get_meta_datetime (meta_read f) META_KEYS = Inr m"
  shows "\<exists>msg. get_datetime f begin_year this_year = Inr msg
           \<and> (if d_stat msg = 0 then Some (classify msg) else None)
               = spec_classification (m_stat e = 0) (m_stat m = 0) (m_long e = m_long m)
           \<and> (d_check msg = spec_classification (m_stat e = 0) (m_stat m = 0) (m_long e = m_long m)
                \<or> d_check msg = Some Y_ERR)"
proof -
  note se = get_exif_datetime_shape [OF assms(1)]
  note sm = get_meta_datetime_shape [OF assms(2)]
  consider (both) "m_stat e = 0" "m_stat m = 0" | (exif) "m_stat e = 0" "m_stat m \<noteq> 0"
    | (meta) "m_stat e \<noteq> 0" "m_stat m = 0" | (none) "m_stat e \<noteq> 0" "m_stat m \<noteq> 0"
    by blast
  then show ?thesis
  proof cases
    case both
    from se both obtain t where t: "m_short e = Some (strftime_short t)"
      "m_long e = Some (strftime_long t)" by auto
    from sm both obtain t' where t': "m_short m = Some (strftime_short t')"
      "m_long m = Some (strftime_long t')" by auto
    show ?thesis
      using both t t'
      by (simp add: get_datetime_both [OF assms both(1) t both(2) t'] classify_def truthy_def
            strftime_long_nonempty spec_classification_def)
  next
    case exif
    from se exif obtain t where t: "m_short e = Some (strftime_short t)"
      "m_long e = Some (strftime_long t)" by auto
    show ?thesis
      using exif t
      by (simp add: get_datetime_exif_only [OF assms exif(1) t exif(2)] classify_def truthy_def
            strftime_long_nonempty spec_classification_def)
  next
    case meta
    from sm meta obtain t' where t': "m_short m = Some (strftime_short t')"
      "m_long m = Some (strftime_long t')" by auto
    show ?thesis
      using meta t'
      by (simp add: get_datetime_meta_only [OF assms meta(1) meta(2) t'] classify_def truthy_def
            strftime_long_nonempty spec_classification_def)
  next
    case none
    then show ?thesis
      by (simp add: get_datetime_none [OF assms none] init_dt_msg_def spec_classification_def)
  qed
qed

theorem classification_rule_witness:
  "get_exif_datetime
     (exif_read \<lparr>exif_read = Decoded [(ascii ''EXIF DateTimeOriginal'', ascii ''2022:04:01 15:25:38'')],
                  meta_read = Decoded [ascii ''Creation date: 2022-04-01 15:25:38'']\<rparr>) EXIF_KEYS
     = Inr \<lparr>m_stat = 0, m_type = ''EXIF'', m_key = Some (ascii ''EXIF DateTimeOriginal''),
            m_raw = Some (ascii ''2022:04:01 15:25:38''), m_short = Some (ascii ''2022/04''),
            m_long = Some (ascii ''20220401_152538'')\<rparr>
   \<and> get_meta_datetime
     (meta_read \<lparr>exif_read = Decoded [(ascii ''EXIF DateTimeOriginal'', ascii ''2022:04:01 15:25:38'')],
                  meta_read = Decoded [ascii ''Creation date: 2022-04-01 15:25:38'']\<rparr>) META_KEYS
     = Inr \<lparr>m_stat = 0, m_type = ''META'', m_key = Some (ascii ''Creation date''),
            m_raw = Some (ascii ''2022-04-01 15:25:38''), m_short = Some (ascii ''2022/04''),
            m_long = Some (ascii ''20220401_152538'')\<rparr>
   \<and> (\<exists>msg. get_datetime
          \<lparr>exif_read = Decoded [(ascii ''EXIF DateTimeOriginal'', ascii ''2022:04:01 15:25:38'')],
           meta_read = Decoded [ascii ''Creation date: 2022-04-01 15:25:38'']\<rparr> 2000 2026 = Inr msg
        \<and> d_stat msg = 0 \<and> classify msg = BOTH \<and> d_check msg = Some BOTH)"
proof -
  let ?f = "\<lparr>exif_read = Decoded [(ascii ''EXIF DateTimeOriginal'', ascii ''2022:04:01 15:25:38'')],
             meta_read = Decoded [ascii ''Creation date: 2022-04-01 15:25:38'']\<rparr>"
  let ?e = "\<lparr>m_stat = 0, m_type = ''EXIF'', m_key = Some (ascii ''EXIF DateTimeOriginal''),
            m_raw = Some (ascii ''2022:04:01 15:25:38''), m_short = Some (ascii ''2022/04''),
            m_long = Some (ascii ''20220401_152538'')\<rparr>"
  let ?m = "\<lparr>m_stat = 0, m_type = ''META'', m_key = Some (ascii ''Creation date''),
            m_raw = Some (ascii ''2022-04-01 15:25:38''), m_short = Some (ascii ''2022/04''),
            m_long = Some (ascii ''20220401_152538'')\<rparr>"
  have h1: "get_exif_datetime (exif_read ?f) EXIF_KEYS = Inr ?e"
    by (simp add: process_datetime_eval extractor_eval)
  have h2: "get_meta_datetime (meta_read ?f) META_KEYS = Inr ?m"
    by (simp add: process_datetime_eval extractor_eval)
  have h3: "get_datetime ?f 2000 2026 = Inr \<lparr>d_stat = 0, d_check = Some BOTH,
      EXIF_K = m_key ?e, EXIF_R = m_raw ?e, EXIF_S = m_short ?e, EXIF_L = m_long ?e,
      META_K = m_key ?m, META_R = m_raw ?m, META_S = m_short ?m, META_L = m_long ?m\<rparr>"
    by (simp add: process_datetime_eval extractor_eval get_datetime_eval)
  from classification_rule [OF h1 h2, of 2000 2026]
  obtain msg where "get_datetime ?f 2000 2026 = Inr msg"
    and "(if d_stat msg = 0 then Some (classify msg) else None) = Some BOTH"
    by (auto simp: spec_classification_def ascii_def)
  with h3 have "\<exists>msg. get_datetime ?f 2000 2026 = Inr msg \<and> d_stat msg = 0 \<and> classify msg = BOTH
      \<and> d_check msg = Some BOTH"
    by (auto split: if_splits)
  with h1 h2 show ?thesis by blast
qed

text \<open>
  C3, as the code has it. The year test is applied only to the classes \<open>BOTH\<close>,
  \<open>EXIF\<close> and \<open>META\<close>: there the class becomes \<open>Y_ERR\<close> exactly when the year of the
  date used for filing (the EXIF short date for \<open>BOTH\<close> and \<open>EXIF\<close>, the META short
  date for \<open>META\<close>) is below \<open>begin_year\<close> or above the current year. A record of
  class \<open>D_ERR\<close> keeps that class whatever its years, and a record without a valid
  source has no class. Since \<open>process_datetime\<close> rejects a year outside 1900 to 2050,
  the years 1899 and 2051 of the claim never reach the test.
\<close>

theorem year_gate_scope:
  assumes "get_datetime f begin_year this_year = Inr msg"
  shows "(d_stat msg \<noteq> 0 \<longrightarrow> d_check msg = None)
       \<and> (d_stat msg = 0 \<and> classify msg = D_ERR \<longrightarrow> d_check msg = Some D_ERR)
       \<and> (d_stat msg = 0 \<and> (classify msg = BOTH \<or> classify msg = EXIF) \<longrightarrow>
            (\<exists>y. year_of_short (EXIF_S msg) = Inr y
               \<and> d_check msg = Some (if y < begin_year \<or> y > this_year then Y_ERR else classify msg)))
       \<and> (d_stat msg = 0 \<and> classify msg = META \<longrightarrow>
            (\<exists>y. year_of_short (META_S msg) = Inr y
               \<and> d_check msg = Some (if y < begin_year \<or> y > this_year then Y_ERR else META)))"
proof -
  obtain e where e: "get_exif_datetime (exif_read f) EXIF_KEYS = Inr e"
    using assms by (auto simp: get_datetime_def split: sum.splits)
  obtain m where m: "get_meta_datetime (meta_read f) META_KEYS = Inr m"
    using assms e by (auto simp: get_datetime_def split: sum.splits)
  note se = get_exif_datetime_shape [OF e]
  note sm = get_meta_datetime_shape [OF m]
  consider (both) "m_stat e = 0" "m_stat m = 0" | (exif) "m_stat e = 0" "m_stat m \<noteq> 0"
    | (meta) "m_stat e \<noteq> 0" "m_stat m = 0" | (none) "m_stat e \<noteq> 0" "m_stat m \<noteq> 0"
    by blast
  then show ?thesis
  proof cases
    case both
    from se both obtain t where t: "m_short e = Some (strftime_short t)"
      "m_long e = Some (strftime_long t)" and ty: "tm_year t < 10000" by auto
    from sm both obtain t' where t': "m_short m = Some (strftime_short t')"
      "m_long m = Some (strftime_long t')" and ty': "tm_year t' < 10000" by auto
    have yy: "strftime_long t = strftime_long t' \<Longrightarrow> tm_year t = tm_year t'"
      using long_year_eq [OF ty ty'] .
    show ?thesis
      using assms t t' yy
      by (auto simp: get_datetime_both [OF e m both(1) t both(2) t'] classify_def truthy_def
            strftime_long_nonempty year_of_strftime_short)
  next
    case exif
    from se exif obtain t where t: "m_short e = Some (strftime_short t)"
      "m_long e = Some (strftime_long t)" by auto
    show ?thesis
      using assms t
      by (auto simp: get_datetime_exif_only [OF e m exif(1) t exif(2)] classify_def truthy_def
            strftime_long_nonempty year_of_strftime_short)
  next
    case meta
    from sm meta obtain t' where t': "m_short m = Some (strftime_short t')"
      "m_long m = Some (strftime_long t')" by auto
    show ?thesis
      using assms t'
      by (auto simp: get_datetime_meta_only [OF e m meta(1) meta(2) t'] classify_def truthy_def
            strftime_long_nonempty year_of_strftime_short)
  next
    case none
    show ?thesis
      using assms
      by (auto simp: get_datetime_none [OF e m none] init_dt_msg_def)
  qed
qed

theorem year_gate_scope_witness:
  "get_datetime \<lparr>exif_read = Decoded [(ascii ''EXIF DateTimeOriginal'', ascii ''1999:01:01 00:00:00'')],
                 meta_read = Decoded [ascii ''Creation date: 1999-01-01 00:00:00'']\<rparr> 2000 2026
   = Inr \<lparr>d_stat = 0, d_check = Some Y_ERR,
          EXIF_K = Some (ascii ''EXIF DateTimeOriginal''),
          EXIF_R = Some (ascii ''1999:01:01 00:00:00''),
          EXIF_S = Some (ascii ''1999/01''), EXIF_L = Some (ascii ''19990101_000000''),
          META_K = Some (ascii ''Creation date''),
          META_R = Some (ascii ''1999-01-01 00:00:00''),
          META_S = Some (ascii ''1999/01''), META_L = Some (ascii ''19990101_000000'')\<rparr>
   \<and> year_of_short (Some (ascii ''1999/01'')) = Inr 1999"
proof -
  let ?f = "\<lparr>exif_read = Decoded [(ascii ''EXIF DateTimeOriginal'', ascii ''1999:01:01 00:00:00'')],
                 meta_read = Decoded [ascii ''Creation date: 1999-01-01 00:00:00'']\<rparr>"
  let ?msg = "\<lparr>d_stat = 0, d_check = Some Y_ERR,
          EXIF_K = Some (ascii ''EXIF DateTimeOriginal''),
          EXIF_R = Some (ascii ''1999:01:01 00:00:00''),
          EXIF_S = Some (ascii ''1999/01''), EXIF_L = Some (ascii ''19990101_000000''),
          META_K = Some (ascii ''Creation date''),
          META_R = Some (ascii ''1999-01-01 00:00:00''),
          META_S = Some (ascii ''1999/01''), META_L = Some (ascii ''19990101_000000'')\<rparr>"
  have h: "get_datetime ?f 2000 2026 = Inr ?msg"
    by (simp add: process_datetime_eval extractor_eval get_datetime_eval)
  have c: "d_stat ?msg = 0 \<and> (classify ?msg = BOTH \<or> classify ?msg = EXIF)"
    by (simp add: classify_def truthy_def ascii_def)
  from year_gate_scope [OF h] c
  have "\<exists>y. year_of_short (EXIF_S ?msg) = Inr y
          \<and> d_check ?msg = Some (if y < 2000 \<or> y > 2026 then Y_ERR else classify ?msg)"
    by blast
  then have "year_of_short (Some (ascii ''1999/01'')) = Inr 1999"
    by (auto simp: year_of_short_def string_eval)
  with h show ?thesis by blast
qed

text \<open>
  C3, as the claim states it, fails: EXIF says 1999 and META says 1998, both below the
  floor year 2000, and the class stays \<open>D_ERR\<close>.
\<close>

theorem year_gate_skips_mismatch:
  "get_datetime \<lparr>exif_read = Decoded [(ascii ''EXIF DateTimeOriginal'', ascii ''1999:01:01 00:00:00'')],
                 meta_read = Decoded [ascii ''Creation date: 1998-01-01 00:00:00'']\<rparr> 2000 2026
   = Inr \<lparr>d_stat = 0, d_check = Some D_ERR,
          EXIF_K = Some (ascii ''EXIF DateTimeOriginal''),
          EXIF_R = Some (ascii ''1999:01:01 00:00:00''),
          EXIF_S = Some (ascii ''1999/01''), EXIF_L = Some (ascii ''19990101_000000''),
          META_K = Some (ascii ''Creation date''),
          META_R = Some (ascii ''1998-01-01 00:00:00''),
          META_S = Some (ascii ''1998/01''), META_L = Some (ascii ''19980101_000000'')\<rparr>"
  by (simp add: process_datetime_eval extractor_eval get_datetime_eval)

subsection \<open>Canonical strings\<close>

lemma fmt0_2_value:
  assumes "a < 10" "b < 10"
  shows "fmt0 2 (10 * a + b) = [48 + a, 48 + b]"
proof (cases "a = 0")
  case True
  with assms show ?thesis by (simp add: fmt0_def str_nat.simps [of b])
next
  case False
  have "(10 * a + b) div 10 = a" "(10 * a + b) mod 10 = b" using assms by simp_all
  with False assms show ?thesis
    by (simp add: fmt0_def str_nat.simps [of "10 * a + b"] str_nat.simps [of a])
qed

lemma fmt0_2_digits:
  assumes "is_digit a" "is_digit b"
  shows "fmt0 2 (py_int [a, b]) = [a, b]"
proof -
  obtain a' b' where ab: "a = 48 + a'" "a' < 10" "b = 48 + b'" "b' < 10"
    using assms by (auto simp: is_digit_def le_iff_add)
  have "py_int [a, b] = 10 * a' + b'" by (simp add: py_int_def ab)
  then show ?thesis using fmt0_2_value [OF ab(2) ab(4)] ab by simp
qed

lemma str_nat_step:
  assumes "n \<noteq> 0" "d < 10"
  shows "str_nat (10 * n + d) = str_nat n @ [48 + d]"
proof -
  have "(10 * n + d) div 10 = n" "(10 * n + d) mod 10 = d" "\<not> 10 * n + d < 10"
    using assms by simp_all
  then show ?thesis by (simp add: str_nat.simps [of "10 * n + d"])
qed

lemma str_nat_4_value:
  assumes "a < 10" "b < 10" "c < 10" "d < 10" "a \<noteq> 0"
  shows "str_nat (10 * (10 * (10 * a + b) + c) + d) = [48 + a, 48 + b, 48 + c, 48 + d]"
proof -
  have s1: "str_nat a = [48 + a]" using assms by (simp add: str_nat.simps [of a])
  have n2: "10 * a + b \<noteq> 0" and n3: "10 * (10 * a + b) + c \<noteq> 0" using assms by simp_all
  have "str_nat (10 * (10 * (10 * a + b) + c) + d) = str_nat (10 * (10 * a + b) + c) @ [48 + d]"
    by (rule str_nat_step [OF n3 assms(4)])
  also have "str_nat (10 * (10 * a + b) + c) = str_nat (10 * a + b) @ [48 + c]"
    by (rule str_nat_step [OF n2 assms(3)])
  also have "str_nat (10 * a + b) = str_nat a @ [48 + b]"
    by (rule str_nat_step [OF assms(5) assms(2)])
  finally show ?thesis by (simp add: s1)
qed

lemma str_nat_4_digits:
  assumes "is_digit a" "is_digit b" "is_digit c" "is_digit d" "1000 \<le> py_int [a, b, c, d]"
  shows "str_nat (py_int [a, b, c, d]) = [a, b, c, d]"
proof -
  obtain a' b' c' d' where ab: "a = 48 + a'" "a' < 10" "b = 48 + b'" "b' < 10"
    "c = 48 + c'" "c' < 10" "d = 48 + d'" "d' < 10"
    using assms by (auto simp: is_digit_def le_iff_add)
  have n: "py_int [a, b, c, d] = 10 * (10 * (10 * a' + b') + c') + d'"
    by (simp add: py_int_def ab)
  have a0: "a' \<noteq> 0" using assms(5) ab unfolding n by auto
  show ?thesis
    unfolding n using str_nat_4_value [OF ab(2) ab(4) ab(6) ab(8) a0] ab by simp
qed

lemma re_search_canonical:
  assumes "is_digit y1" "is_digit y2" "is_digit y3" "is_digit y4"
    "is_digit m1" "is_digit m2" "is_digit d1" "is_digit d2"
    "is_digit h1" "is_digit h2" "is_digit n1" "is_digit n2" "is_digit s1" "is_digit s2"
  shows "re_search [y1, y2, y3, y4, 58, m1, m2, 58, d1, d2, 32, h1, h2, 58, n1, n2, 58, s1, s2]
       = Some \<lparr>g_year = [y1, y2, y3, y4], g_month = [m1, m2], g_day = [d1, d2],
               g_hour = [h1, h2], g_minute = [n1, n2], g_second = [s1, s2]\<rparr>"
proof -
  have nl: "y1 \<noteq> 10" "y2 \<noteq> 10" "y3 \<noteq> 10" "y4 \<noteq> 10" "m1 \<noteq> 10" "m2 \<noteq> 10" "d1 \<noteq> 10" "d2 \<noteq> 10"
    "h1 \<noteq> 10" "h2 \<noteq> 10" "n1 \<noteq> 10" "n2 \<noteq> 10" "s1 \<noteq> 10" "s2 \<noteq> 10"
    using assms by (auto simp: is_digit_def)
  have nd: "\<not> is_digit 58" "\<not> is_digit 32" "is_space 32" "\<not> is_space h1"
    using assms by (auto simp: is_digit_def is_space_def)
  show ?thesis
    using assms nl nd by (simp add: match_core_def parse_core_def)
qed

lemma strip_letters_id: "\<forall>c\<in>set s. is_digit c \<or> c = 58 \<or> c = 32 \<Longrightarrow> strip_letters s = s"
  by (auto simp: strip_letters_def is_digit_def cjk_or_latin_def intro!: filter_True)

lemma replace_char_id: "a \<notin> set s \<Longrightarrow> replace_char a b s = s"
  by (induction s) (auto simp: replace_char_def)

lemma digits4_value:
  "10 * (10 * (10 * (y div 1000) + y div 100 mod 10) + y div 10 mod 10) + y mod 10 = (y::nat)"
proof -
  have a: "y div 100 = y div 10 div 10"
    using div_mult2_eq [of y 10 10] by simp
  have b: "y div 1000 = y div 10 div 10 div 10"
    using div_mult2_eq [of y 100 10] a by simp
  show ?thesis unfolding a b by simp
qed

lemma str_nat_4:
  assumes "1000 \<le> y" "y < 10000"
  shows "str_nat y = [48 + y div 1000, 48 + y div 100 mod 10, 48 + y div 10 mod 10, 48 + y mod 10]"
proof -
  have a: "y div 1000 < 10" "y div 1000 \<noteq> 0" using assms by auto
  have "str_nat (10 * (10 * (10 * (y div 1000) + y div 100 mod 10) + y div 10 mod 10) + y mod 10)
      = [48 + y div 1000, 48 + y div 100 mod 10, 48 + y div 10 mod 10, 48 + y mod 10]"
    by (rule str_nat_4_value) (use a in simp_all)
  then show ?thesis by (simp only: digits4_value)
qed

lemma fmt0_2:
  assumes "m < 100"
  shows "fmt0 2 m = [48 + m div 10, 48 + m mod 10]"
proof -
  have "m div 10 < 10" using assms by simp
  then have "fmt0 2 (10 * (m div 10) + m mod 10) = [48 + m div 10, 48 + m mod 10]"
    by (intro fmt0_2_value) simp_all
  then show ?thesis by simp
qed

lemma py_int_2: "a < 10 \<Longrightarrow> py_int [48 + a, 48 + b] = 10 * a + b"
  by (simp add: py_int_def)

lemma py_int_4:
  "py_int [48 + a, 48 + b, 48 + c, 48 + d] = 10 * (10 * (10 * a + b) + c) + d"
  by (simp add: py_int_def)

lemma is_canonical_render:
  assumes "1900 \<le> y" "y \<le> 2050" "1 \<le> mo" "mo \<le> 12" "1 \<le> d" "d \<le> 31"
    "h \<le> 23" "mi \<le> 59" "se \<le> 59"
  shows "is_canonical (str_nat y @ [58] @ fmt0 2 mo @ [58] @ fmt0 2 d @ [32]
                       @ fmt0 2 h @ [58] @ fmt0 2 mi @ [58] @ fmt0 2 se)"
proof -
  have y: "str_nat y = [48 + y div 1000, 48 + y div 100 mod 10, 48 + y div 10 mod 10, 48 + y mod 10]"
    using assms by (intro str_nat_4) simp_all
  have yv: "py_int [48 + y div 1000, 48 + y div 100 mod 10, 48 + y div 10 mod 10, 48 + y mod 10] = y"
    unfolding py_int_4 by (rule digits4_value)
  have f: "fmt0 2 mo = [48 + mo div 10, 48 + mo mod 10]" "fmt0 2 d = [48 + d div 10, 48 + d mod 10]"
    "fmt0 2 h = [48 + h div 10, 48 + h mod 10]" "fmt0 2 mi = [48 + mi div 10, 48 + mi mod 10]"
    "fmt0 2 se = [48 + se div 10, 48 + se mod 10]"
    using assms by (simp_all add: fmt0_2)
  have v: "\<And>n. n < 100 \<Longrightarrow> py_int [48 + n div 10, 48 + n mod 10] = n"
    by (simp add: py_int_2)
  have fv: "py_int [48 + mo div 10, 48 + mo mod 10] = mo" "py_int [48 + d div 10, 48 + d mod 10] = d"
    "py_int [48 + h div 10, 48 + h mod 10] = h" "py_int [48 + mi div 10, 48 + mi mod 10] = mi"
    "py_int [48 + se div 10, 48 + se mod 10] = se"
    using assms by (simp_all add: v)
  have dg: "\<And>n::nat. n < 10 \<Longrightarrow> is_digit (48 + n)" by (simp add: is_digit_def)
  have dgs: "is_digit (48 + y div 1000)" "is_digit (48 + y div 100 mod 10)"
    "is_digit (48 + y div 10 mod 10)" "is_digit (48 + y mod 10)"
    "is_digit (48 + mo div 10)" "is_digit (48 + mo mod 10)"
    "is_digit (48 + d div 10)" "is_digit (48 + d mod 10)"
    "is_digit (48 + h div 10)" "is_digit (48 + h mod 10)"
    "is_digit (48 + mi div 10)" "is_digit (48 + mi mod 10)"
    "is_digit (48 + se div 10)" "is_digit (48 + se mod 10)"
    using assms by (simp_all add: dg)
  show ?thesis
    unfolding y f using assms by (simp add: yv fv dgs)
qed

lemma process_datetime_canonical:
  assumes "process_datetime raw = Inr (Some s)"
  shows "is_canonical s"
proof -
  let ?dt = "replace_char 47 58 (replace_char 45 58 (strip_letters raw))"
  from assms obtain g where g: "re_search ?dt = Some g"
    by (auto simp: process_datetime_def Let_def split: option.splits)
  define y where "y = py_int (g_year g)"
  define mo where "mo = py_int (g_month g)"
  define d where "d = py_int (g_day g)"
  define h where "h = (if py_int (g_hour g) > 23 then py_int (g_hour g) mod 24 else py_int (g_hour g))"
  define mi where
    "mi = (if py_int (g_minute g) > 59 then py_int (g_minute g) mod 60 else py_int (g_minute g))"
  define se where
    "se = (if py_int (g_second g) > 59 then py_int (g_second g) mod 60 else py_int (g_second g))"
  have eq: "process_datetime raw =
      (if y < 1900 \<or> y > 2050 then Inr None
       else if mo < 1 \<or> mo > 12 then Inr None
       else if d < 1 \<or> d > 31 then Inr None
       else Inr (Some (str_nat y @ [58] @ fmt0 2 mo @ [58] @ fmt0 2 d @ [32]
                       @ fmt0 2 h @ [58] @ fmt0 2 mi @ [58] @ fmt0 2 se)))"
    unfolding process_datetime_def Let_def g y_def mo_def d_def h_def mi_def se_def by simp
  have r1: "1900 \<le> y" "y \<le> 2050" "1 \<le> mo" "mo \<le> 12" "1 \<le> d" "d \<le> 31"
    using assms unfolding eq by (simp_all split: if_splits)
  have s: "s = str_nat y @ [58] @ fmt0 2 mo @ [58] @ fmt0 2 d @ [32]
                       @ fmt0 2 h @ [58] @ fmt0 2 mi @ [58] @ fmt0 2 se"
    using assms unfolding eq by (simp split: if_splits)
  have m24: "\<And>n::nat. n mod 24 \<le> 23" and m60: "\<And>n::nat. n mod 60 \<le> 59"
    by presburger+
  have r2: "h \<le> 23" "mi \<le> 59" "se \<le> 59"
    by (simp_all add: h_def mi_def se_def m24 m60)
  show ?thesis unfolding s using r1 r2 by (rule is_canonical_render)
qed

text \<open>
  C9. \<open>process_datetime\<close> returns every canonical date string unchanged. By
  \<open>process_datetime_canonical\<close> every string it returns is canonical, so it also
  returns its own results unchanged.
\<close>

theorem process_datetime_idempotent:
  assumes "is_canonical s"
  shows "process_datetime s = Inr (Some s)"
proof -
  from assms obtain y1 y2 y3 y4 m1 m2 d1 d2 h1 h2 n1 n2 s1 s2 where
    s: "s = [y1, y2, y3, y4, 58, m1, m2, 58, d1, d2, 32, h1, h2, 58, n1, n2, 58, s1, s2]"
    and dg: "is_digit y1" "is_digit y2" "is_digit y3" "is_digit y4"
      "is_digit m1" "is_digit m2" "is_digit d1" "is_digit d2"
      "is_digit h1" "is_digit h2" "is_digit n1" "is_digit n2" "is_digit s1" "is_digit s2"
    and rg: "1900 \<le> py_int [y1, y2, y3, y4]" "py_int [y1, y2, y3, y4] \<le> 2050"
      "1 \<le> py_int [m1, m2]" "py_int [m1, m2] \<le> 12"
      "1 \<le> py_int [d1, d2]" "py_int [d1, d2] \<le> 31"
      "py_int [h1, h2] \<le> 23" "py_int [n1, n2] \<le> 59" "py_int [s1, s2] \<le> 59"
    by (auto elim!: is_canonical.elims(2))
  have a: "strip_letters s = s"
    by (rule strip_letters_id) (use dg in \<open>auto simp: s\<close>)
  have b: "replace_char 45 58 s = s" "replace_char 47 58 s = s"
    by (rule replace_char_id, use dg in \<open>auto simp: s is_digit_def\<close>)+
  have y: "str_nat (py_int [y1, y2, y3, y4]) = [y1, y2, y3, y4]"
    using dg rg by (intro str_nat_4_digits) auto
  note f = fmt0_2_digits [OF dg(5) dg(6)] fmt0_2_digits [OF dg(7) dg(8)]
    fmt0_2_digits [OF dg(9) dg(10)] fmt0_2_digits [OF dg(11) dg(12)]
    fmt0_2_digits [OF dg(13) dg(14)]
  have r: "re_search s = Some \<lparr>g_year = [y1, y2, y3, y4], g_month = [m1, m2], g_day = [d1, d2],
               g_hour = [h1, h2], g_minute = [n1, n2], g_second = [s1, s2]\<rparr>"
    unfolding s by (rule re_search_canonical [OF dg])
  show ?thesis
    using rg by (simp add: process_datetime_def a b r Let_def y f) (simp add: s)
qed

theorem process_datetime_idempotent_witness:
  "is_canonical (ascii ''2022:04:01 15:25:38'')
   \<and> process_datetime (ascii ''2022:04:01 15:25:38'') = Inr (Some (ascii ''2022:04:01 15:25:38''))"
proof -
  have h: "is_canonical (ascii ''2022:04:01 15:25:38'')"
    by (simp add: ascii_def is_digit_def py_int_def)
  show ?thesis using h process_datetime_idempotent [OF h] by simp
qed

section \<open>Properties of tidy.py\<close>

subsection \<open>Evaluation at concrete inputs\<close>

lemma replicate_numeral: "replicate (numeral k) x = x # replicate (pred_numeral k) x"
  by (simp add: numeral_eq_Suc)

lemmas path_eval = split_on.simps endswith_def splitext_stem_def path_join_def basename_def
  FILE_CATEGORY_def

lemmas fs_eval = is_dir_def is_file_def exists_def entries_def listdir_def mkdir_def rmdir_def
  write_file_def remove_file_def copyfile_def move_def move_file_def to_excel_def

lemmas pick_num_eval = pick_num_def strip_trailing_def sub_trailing_def

lemmas plan_eval = plan_row_def dated_target_def plain_target_def choose_side_def mk_plan_def
  fmt_cell_def fmt_confi_def pick_num_eval path_eval EXIF_KEYS_def META_KEYS_def

lemmas tidy_eval = place_row_def reorgnize_file_def plan_eval fs_eval

lemmas main_eval = main_def chk_cols_def COLS_SET_def chk_duplicate_def drop_duplicates_def
  dup_key_def mk_category_dirs_def mk_date_dirs_def rm_date_dirs_def mkdir_if_missing_def
  rmdir_if_empty_def DATE_DIRS_def

lemmas example_eval = undated_image_def dated_image_def mismatch_image_def dated_dirs_def

subsection \<open>Duplicates\<close>



lemma drop_seen_subseq: "set (drop_seen seen xs) \<subseteq> set xs"
  by (induction xs arbitrary: seen) auto



lemma read_sel_valid:
  "sel \<in> set [ascii ''YES'', ascii ''NO'', ascii ''EXIT''] \<Longrightarrow> read_sel (sel # answers) = Inr sel"
  by simp









subsection \<open>The side of a date mismatch\<close>

lemma choose_side_tier:
  assumes "i < 3" "j < 3"
  shows "choose_side (Some (EXIF_KEYS ! i)) (Some (META_KEYS ! j)) =
     Inr (if i \<le> j then ascii ''EXIF'' else ascii ''META'',
          [ascii ''U'', ascii ''H'', ascii ''N''] ! min i j)"
proof -
  consider "i = 0" | "i = 1" | "i = 2" using assms(1) by linarith
  then show ?thesis
  proof cases
    case 1
    then show ?thesis by (simp add: choose_side_def)
  next
    case 2
    consider "j = 0" | "j = 1" | "j = 2" using assms(2) by linarith
    then show ?thesis
      using 2 by cases (simp_all add: choose_side_def EXIF_KEYS_def META_KEYS_def ascii_def)
  next
    case 3
    consider "j = 0" | "j = 1" | "j = 2" using assms(2) by linarith
    then show ?thesis
      using 3 by cases (simp_all add: choose_side_def EXIF_KEYS_def META_KEYS_def ascii_def)
  qed
qed

text \<open>
  C6. Let a \<open>D_ERR\<close> row have the EXIF key of tier \<open>i\<close> and the META key of tier
  \<open>j\<close> (the positions in \<open>_EXIF_KEYS\<close> and \<open>_META_KEYS\<close>). The first tier at which a
  source matched is \<open>min i j\<close>, and the side chosen is EXIF when \<open>i \<le> j\<close> (also when
  both matched at the same tier), else META. \<open>confi\<close> becomes
  \<open>D_<side>_<letter>\<close> with the letters \<open>U\<close>, \<open>H\<close>, \<open>N\<close> for the tiers 0, 1, 2,
  the target directory is the category directory followed by the components of the
  short date of the chosen side, and the name is
  \<open>IMG_<long date of the chosen side>_<confi>_<seq>.<ext>\<close>.
\<close>

theorem date_mismatch_side:
  assumes "r_check f = Some D_ERR"
    and "i < 3" and "j < 3"
    and "r_exif_key f = Some (EXIF_KEYS ! i)" and "r_meta_key f = Some (META_KEYS ! j)"
    and "map_of FILE_CATEGORY (r_type f @ ascii ''_with_datetime'') = Some category"
    and "(if i \<le> j then r_exif_short f else r_meta_short f) = Some sh"
    and "listdir s (path_join (split_on 47 category @ split_on 47 sh)) = Inr es"
  shows "plan_row s confi f =
     Inr \<lparr>p_confi = Some (ascii ''D_'' @ (if i \<le> j then ascii ''EXIF'' else ascii ''META'') @ [95]
                          @ [ascii ''U'', ascii ''H'', ascii ''N''] ! min i j),
          p_dir = path_join (split_on 47 category @ split_on 47 sh),
          p_path = path_join (split_on 47 category @ split_on 47 sh)
                   @ [ascii ''IMG_'' @ fmt_cell (if i \<le> j then r_exif_long f else r_meta_long f)
                      @ [95] @ ascii ''D_'' @ (if i \<le> j then ascii ''EXIF'' else ascii ''META'')
                      @ [95] @ [ascii ''U'', ascii ''H'', ascii ''N''] ! min i j @ [95]
                      @ fmt0 5 (length es + 1) @ [46] @ r_ext f],
          p_yerr = False\<rparr>"
proof -
  have ne: "ascii ''META'' \<noteq> ascii ''EXIF''" by (simp add: ascii_def)
  note cs = choose_side_tier [OF assms(2) assms(3)]
  show ?thesis
  proof (cases "i \<le> j")
    case True
    with assms cs show ?thesis
      by (simp add: plan_row_def Let_def dated_target_def mk_plan_def fmt_confi_def)
  next
    case False
    with assms cs ne show ?thesis
      by (simp add: plan_row_def Let_def dated_target_def mk_plan_def fmt_confi_def)
  qed
qed

theorem date_mismatch_side_witness:
  "r_check (mismatch_image [ascii ''src'', ascii ''a.jpg''] (ascii ''aa'')) = Some D_ERR
   \<and> (1::nat) < 3 \<and> (0::nat) < 3
   \<and> r_exif_key (mismatch_image [ascii ''src'', ascii ''a.jpg''] (ascii ''aa'')) = Some (EXIF_KEYS ! 1)
   \<and> r_meta_key (mismatch_image [ascii ''src'', ascii ''a.jpg''] (ascii ''aa'')) = Some (META_KEYS ! 0)
   \<and> map_of FILE_CATEGORY (ascii ''image'' @ ascii ''_with_datetime'') = Some (ascii ''Photos_bydt'')
   \<and> listdir \<lparr>dirs = dated_dirs, files = [([ascii ''src'', ascii ''a.jpg''], Data 1)]\<rparr>
         [ascii ''Photos_bydt'', ascii ''2000'', ascii ''03''] = Inr []
   \<and> plan_row \<lparr>dirs = dated_dirs, files = [([ascii ''src'', ascii ''a.jpg''], Data 1)]\<rparr> None
         (mismatch_image [ascii ''src'', ascii ''a.jpg''] (ascii ''aa''))
       = Inr \<lparr>p_confi = Some (ascii ''D_META_U''),
              p_dir = [ascii ''Photos_bydt'', ascii ''2000'', ascii ''03''],
              p_path = [ascii ''Photos_bydt'', ascii ''2000'', ascii ''03'',
                        ascii ''IMG_20000331_090000_D_META_U_00001.jpg''],
              p_yerr = False\<rparr>"
proof -
  let ?f = "mismatch_image [ascii ''src'', ascii ''a.jpg''] (ascii ''aa'')"
  let ?s = "\<lparr>dirs = dated_dirs, files = [([ascii ''src'', ascii ''a.jpg''], Data 1)]\<rparr>"
  have h1: "r_check ?f = Some D_ERR" by (simp add: mismatch_image_def)
  have h2: "(1::nat) < 3" and h3: "(0::nat) < 3" by simp_all
  have h4: "r_exif_key ?f = Some (EXIF_KEYS ! 1)" by (simp add: mismatch_image_def EXIF_KEYS_def)
  have h5: "r_meta_key ?f = Some (META_KEYS ! 0)" by (simp add: mismatch_image_def META_KEYS_def)
  have h6: "map_of FILE_CATEGORY (r_type ?f @ ascii ''_with_datetime'') = Some (ascii ''Photos_bydt'')"
    by (simp add: mismatch_image_def FILE_CATEGORY_def ascii_def)
  have h7: "(if (1::nat) \<le> 0 then r_exif_short ?f else r_meta_short ?f) = Some (ascii ''2000/03'')"
    by (simp add: mismatch_image_def)
  have d: "path_join (split_on 47 (ascii ''Photos_bydt'') @ split_on 47 (ascii ''2000/03''))
             = [ascii ''Photos_bydt'', ascii ''2000'', ascii ''03'']"
    by (simp add: path_join_def ascii_def)
  have l: "listdir ?s [ascii ''Photos_bydt'', ascii ''2000'', ascii ''03''] = Inr []"
    by (simp add: fs_eval example_eval ascii_def)
  have h8: "listdir ?s (path_join (split_on 47 (ascii ''Photos_bydt'') @ split_on 47 (ascii ''2000/03'')))
             = Inr []"
    using l by (simp only: d)
  have "plan_row ?s None ?f = Inr \<lparr>p_confi = Some (ascii ''D_META_U''),
              p_dir = [ascii ''Photos_bydt'', ascii ''2000'', ascii ''03''],
              p_path = [ascii ''Photos_bydt'', ascii ''2000'', ascii ''03'',
                        ascii ''IMG_20000331_090000_D_META_U_00001.jpg''],
              p_yerr = False\<rparr>"
    using date_mismatch_side [OF h1 h2 h3 h4 h5 h6 h7 h8, of None]
    by (simp add: d) (simp add: mismatch_image_def fmt_cell_def string_eval replicate_numeral)
  with h1 h2 h3 h4 h5 h6 l show ?thesis by (simp add: mismatch_image_def)
qed

subsection \<open>The sequence number\<close>

lemma dated_target_seq:
  assumes "dated_target s k sh lg c ext = Inr (d, p)"
  shows "\<exists>es front. listdir s d = Inr es
           \<and> p = d @ [front @ [95] @ fmt0 5 (length es + 1) @ [46] @ ext]"
proof -
  from assms obtain es where es: "listdir s d = Inr es"
    and p: "p = d @ [ascii ''IMG_'' @ fmt_cell lg @ [95] @ fmt_confi c @ [95]
                     @ fmt0 5 (length es + 1) @ [46] @ ext]"
    by (auto simp: dated_target_def Let_def split: option.splits sum.splits)
  have "p = d @ [(ascii ''IMG_'' @ fmt_cell lg @ [95] @ fmt_confi c) @ [95]
                     @ fmt0 5 (length es + 1) @ [46] @ ext]"
    using p by simp
  with es show ?thesis by blast
qed

lemma plain_target_seq:
  assumes "plain_target s k front ext = Inr (d, p)"
  shows "\<exists>es front. listdir s d = Inr es
           \<and> p = d @ [front @ [95] @ fmt0 5 (length es + 1) @ [46] @ ext]"
  using assms
  by (auto simp: plain_target_def Let_def split: option.splits sum.splits)

lemma plan_row_target:
  assumes "plan_row s confi f = Inr pl"
  shows "(\<exists>k sh lg c. dated_target s k sh lg c (r_ext f) = Inr (p_dir pl, p_path pl))
       \<or> (\<exists>k front. plain_target s k front (r_ext f) = Inr (p_dir pl, p_path pl))"
proof -
  have *: "\<And>c y t. map_sum id (mk_plan c y) t = Inr pl \<Longrightarrow> t = Inr (p_dir pl, p_path pl)"
    by (case_tac t) (auto simp: mk_plan_def)
  from assms show ?thesis
    unfolding plan_row_def Let_def
    by (auto split: if_splits sum.splits prod.splits dest!: *)
qed

lemma three_files_run: "reorgnize_file
       \<lparr>dirs = dated_dirs,
        files = [([ascii ''src'', ascii ''a.jpg''], Data 1), ([ascii ''src'', ascii ''b.jpg''], Data 2),
                 ([ascii ''src'', ascii ''c.jpg''], Data 3)]\<rparr>
       [dated_image [ascii ''src'', ascii ''a.jpg''] (ascii ''aa''),
        dated_image [ascii ''src'', ascii ''b.jpg''] (ascii ''bb''),
        dated_image [ascii ''src'', ascii ''c.jpg''] (ascii ''cc'')] False
     = Inr \<lparr>t_fs = \<lparr>dirs = dated_dirs,
              files = [([ascii ''src'', ascii ''a.jpg''], Data 1), ([ascii ''src'', ascii ''b.jpg''], Data 2),
                 ([ascii ''src'', ascii ''c.jpg''], Data 3),
                 ([ascii ''Photos_bydt'', ascii ''2000'', ascii ''04'',
                   ascii ''IMG_20000401_152538_EXIF_U_00001.jpg''], Data 1),
                 ([ascii ''Photos_bydt'', ascii ''2000'', ascii ''04'',
                   ascii ''IMG_20000401_152538_EXIF_U_00002.jpg''], Data 2),
                 ([ascii ''Photos_bydt'', ascii ''2000'', ascii ''04'',
                   ascii ''IMG_20000401_152538_EXIF_U_00003.jpg''], Data 3)]\<rparr>,
            t_confi = Some (ascii ''EXIF_U''), success = 3, fail = 0, yerr_files = [],
            failed_files = []\<rparr>"
  by (simp add: tidy_eval string_eval replicate_numeral example_eval Let_def cong: let_weak_cong)

text \<open>
  C7. In every branch of the loop the target name ends with an underscore, the number
  of entries of the target directory at that moment plus one, printed with \<open>:05\<close>, a
  dot and the extension. Three rows of the same class and date, placed into an empty
  directory, get the suffixes 00001, 00002 and 00003 in the order of the ledger.
\<close>

theorem sequence_suffix:
  assumes "plan_row s confi f = Inr pl"
  shows "(\<exists>es front. listdir s (p_dir pl) = Inr es
            \<and> p_path pl = p_dir pl @ [front @ [95] @ fmt0 5 (length es + 1) @ [46] @ r_ext f]
            \<and> py_int (fmt0 5 (length es + 1)) = length es + 1)
       \<and> reorgnize_file
           \<lparr>dirs = dated_dirs,
            files = [([ascii ''src'', ascii ''a.jpg''], Data 1),
                     ([ascii ''src'', ascii ''b.jpg''], Data 2),
                     ([ascii ''src'', ascii ''c.jpg''], Data 3)]\<rparr>
           [dated_image [ascii ''src'', ascii ''a.jpg''] (ascii ''aa''),
            dated_image [ascii ''src'', ascii ''b.jpg''] (ascii ''bb''),
            dated_image [ascii ''src'', ascii ''c.jpg''] (ascii ''cc'')] False
         = Inr \<lparr>t_fs = \<lparr>dirs = dated_dirs,
                  files = [([ascii ''src'', ascii ''a.jpg''], Data 1),
                           ([ascii ''src'', ascii ''b.jpg''], Data 2),
                           ([ascii ''src'', ascii ''c.jpg''], Data 3),
                           ([ascii ''Photos_bydt'', ascii ''2000'', ascii ''04'',
                             ascii ''IMG_20000401_152538_EXIF_U_00001.jpg''], Data 1),
                           ([ascii ''Photos_bydt'', ascii ''2000'', ascii ''04'',
                             ascii ''IMG_20000401_152538_EXIF_U_00002.jpg''], Data 2),
                           ([ascii ''Photos_bydt'', ascii ''2000'', ascii ''04'',
                             ascii ''IMG_20000401_152538_EXIF_U_00003.jpg''], Data 3)]\<rparr>,
                t_confi = Some (ascii ''EXIF_U''), success = 3, fail = 0, yerr_files = [],
                failed_files = []\<rparr>"
proof -
  from plan_row_target [OF assms]
  have "\<exists>es front. listdir s (p_dir pl) = Inr es
            \<and> p_path pl = p_dir pl @ [front @ [95] @ fmt0 5 (length es + 1) @ [46] @ r_ext f]"
    by (auto dest: dated_target_seq plain_target_seq)
  then have "\<exists>es front. listdir s (p_dir pl) = Inr es
            \<and> p_path pl = p_dir pl @ [front @ [95] @ fmt0 5 (length es + 1) @ [46] @ r_ext f]
            \<and> py_int (fmt0 5 (length es + 1)) = length es + 1"
    by (simp add: py_int_fmt0)
  then show ?thesis using three_files_run by (rule conjI)
qed

theorem sequence_suffix_witness:
  "plan_row \<lparr>dirs = dated_dirs, files = [([ascii ''src'', ascii ''a.jpg''], Data 1),
        ([ascii ''Photos_bydt'', ascii ''2000'', ascii ''04'', ascii ''x.jpg''], Data 7)]\<rparr> None
      (dated_image [ascii ''src'', ascii ''a.jpg''] (ascii ''aa''))
     = Inr \<lparr>p_confi = Some (ascii ''EXIF_U''),
            p_dir = [ascii ''Photos_bydt'', ascii ''2000'', ascii ''04''],
            p_path = [ascii ''Photos_bydt'', ascii ''2000'', ascii ''04'',
                      ascii ''IMG_20000401_152538_EXIF_U_00002.jpg''],
            p_yerr = False\<rparr>
   \<and> listdir \<lparr>dirs = dated_dirs, files = [([ascii ''src'', ascii ''a.jpg''], Data 1),
        ([ascii ''Photos_bydt'', ascii ''2000'', ascii ''04'', ascii ''x.jpg''], Data 7)]\<rparr>
        [ascii ''Photos_bydt'', ascii ''2000'', ascii ''04''] = Inr [ascii ''x.jpg'']"
proof -
  let ?s = "\<lparr>dirs = dated_dirs, files = [([ascii ''src'', ascii ''a.jpg''], Data 1),
        ([ascii ''Photos_bydt'', ascii ''2000'', ascii ''04'', ascii ''x.jpg''], Data 7)]\<rparr>"
  let ?pl = "\<lparr>p_confi = Some (ascii ''EXIF_U''),
            p_dir = [ascii ''Photos_bydt'', ascii ''2000'', ascii ''04''],
            p_path = [ascii ''Photos_bydt'', ascii ''2000'', ascii ''04'',
                      ascii ''IMG_20000401_152538_EXIF_U_00002.jpg''],
            p_yerr = False\<rparr>"
  have h: "plan_row ?s None (dated_image [ascii ''src'', ascii ''a.jpg''] (ascii ''aa'')) = Inr ?pl"
    by (simp add: plan_eval fs_eval string_eval replicate_numeral example_eval Let_def
          cong: let_weak_cong)
  have l: "listdir ?s [ascii ''Photos_bydt'', ascii ''2000'', ascii ''04''] = Inr [ascii ''x.jpg'']"
    by (simp add: fs_eval example_eval ascii_def)
  from sequence_suffix [OF h]
  have "\<exists>es front. listdir ?s (p_dir ?pl) = Inr es
            \<and> p_path ?pl = p_dir ?pl @ [front @ [95] @ fmt0 5 (length es + 1) @ [46]
                 @ r_ext (dated_image [ascii ''src'', ascii ''a.jpg''] (ascii ''aa''))]
            \<and> py_int (fmt0 5 (length es + 1)) = length es + 1"
    by (rule conjunct1)
  with h l show ?thesis by simp
qed

subsection \<open>The flag remove\<close>

text \<open>
  C4. The claim: the flag of the command line decides between moving and copying. The
  code does otherwise: \<open>main\<close> receives \<open>remove\<close>, documented as the choice between
  moving and copying, and line 431 passes the constant \<open>remove=False\<close> to
  \<open>reorgnize_file\<close>. So the result of \<open>main\<close> does not depend on the flag, and with
  the flag set the source file \<open>src/a.jpg\<close> is still there after the run; the second
  equation is that run. \<open>reorgnize_file\<close> itself, called with \<open>remove=True\<close>, moves
  the file (third equation).
\<close>

theorem main_ignores_remove:
  "(\<forall>s xlsx answers this_year. main s xlsx answers this_year True = main s xlsx answers this_year False)
   \<and> main \<lparr>dirs = [], files = [([ascii ''src'', ascii ''a.jpg''], Data 1)]\<rparr>
        (Some ([] # COLS_SET, [dated_image [ascii ''src'', ascii ''a.jpg''] (ascii ''aa'')]))
        [ascii ''NO''] 2000 True
     = Inr \<lparr>t_fs = \<lparr>dirs = [[ascii ''Photos_bydt''], [ascii ''Photos_nodt''], [ascii ''Videos_nodt''],
                            [ascii ''Year_err''], [ascii ''Other_files''],
                            [ascii ''Photos_bydt'', ascii ''2000''],
                            [ascii ''Photos_bydt'', ascii ''2000'', ascii ''04'']],
                    files = [([ascii ''src'', ascii ''a.jpg''], Data 1),
                             ([ascii ''Photos_bydt'', ascii ''2000'', ascii ''04'',
                               ascii ''IMG_20000401_152538_EXIF_U_00001.jpg''], Data 1)]\<rparr>,
            t_confi = Some (ascii ''EXIF_U''), success = 1, fail = 0, yerr_files = [],
            failed_files = []\<rparr>
   \<and> reorgnize_file \<lparr>dirs = dated_dirs, files = [([ascii ''src'', ascii ''a.jpg''], Data 1)]\<rparr>
        [dated_image [ascii ''src'', ascii ''a.jpg''] (ascii ''aa'')] True
     = Inr \<lparr>t_fs = \<lparr>dirs = dated_dirs,
                    files = [([ascii ''Photos_bydt'', ascii ''2000'', ascii ''04'',
                               ascii ''IMG_20000401_152538_EXIF_U_00001.jpg''], Data 1)]\<rparr>,
            t_confi = Some (ascii ''EXIF_U''), success = 1, fail = 0, yerr_files = [],
            failed_files = []\<rparr>"
proof -
  have a: "\<forall>s xlsx answers this_year.
      main s xlsx answers this_year True = main s xlsx answers this_year False"
    by (simp add: main_def)
  have b: "main \<lparr>dirs = [], files = [([ascii ''src'', ascii ''a.jpg''], Data 1)]\<rparr>
        (Some ([] # COLS_SET, [dated_image [ascii ''src'', ascii ''a.jpg''] (ascii ''aa'')]))
        [ascii ''NO''] 2000 True
     = Inr \<lparr>t_fs = \<lparr>dirs = [[ascii ''Photos_bydt''], [ascii ''Photos_nodt''], [ascii ''Videos_nodt''],
                            [ascii ''Year_err''], [ascii ''Other_files''],
                            [ascii ''Photos_bydt'', ascii ''2000''],
                            [ascii ''Photos_bydt'', ascii ''2000'', ascii ''04'']],
                    files = [([ascii ''src'', ascii ''a.jpg''], Data 1),
                             ([ascii ''Photos_bydt'', ascii ''2000'', ascii ''04'',
                               ascii ''IMG_20000401_152538_EXIF_U_00001.jpg''], Data 1)]\<rparr>,
            t_confi = Some (ascii ''EXIF_U''), success = 1, fail = 0, yerr_files = [],
            failed_files = []\<rparr>"
    by (simp add: main_eval tidy_eval string_eval replicate_numeral example_eval Let_def upt_rec
          cong: let_weak_cong)
  have c: "reorgnize_file \<lparr>dirs = dated_dirs, files = [([ascii ''src'', ascii ''a.jpg''], Data 1)]\<rparr>
        [dated_image [ascii ''src'', ascii ''a.jpg''] (ascii ''aa'')] True
     = Inr \<lparr>t_fs = \<lparr>dirs = dated_dirs,
                    files = [([ascii ''Photos_bydt'', ascii ''2000'', ascii ''04'',
                               ascii ''IMG_20000401_152538_EXIF_U_00001.jpg''], Data 1)]\<rparr>,
            t_confi = Some (ascii ''EXIF_U''), success = 1, fail = 0, yerr_files = [],
            failed_files = []\<rparr>"
    by (simp add: tidy_eval string_eval replicate_numeral example_eval Let_def
          cong: let_weak_cong)
  from a b c show ?thesis by (intro conjI)
qed

subsection \<open>The fragment of an undated name\<close>

text \<open>
  C10. The claim: for a name without digits \<open>pick_num\<close> returns the empty string, as
  its docstring says (the part of the name from the first digit to the last one). The
  code does otherwise: it only drops letters and underscores, so the stem \<open>my-photo\<close>
  gives the fragment \<open>-\<close> and the file \<open>my-photo.jpg\<close> is planned as
  \<open>IMG_-_NODT_00001.jpg\<close>.
\<close>

theorem pick_num_keeps_punctuation:
  "pick_num (ascii ''my-photo'') = ascii ''-''
   \<and> plan_row \<lparr>dirs = [[ascii ''Photos_nodt'']], files = [([ascii ''my-photo.jpg''], Data 1)]\<rparr> None
        (undated_image [ascii ''my-photo.jpg''] (ascii ''aa''))
     = Inr \<lparr>p_confi = None, p_dir = [ascii ''Photos_nodt''],
            p_path = [ascii ''Photos_nodt'', ascii ''IMG_-_NODT_00001.jpg''], p_yerr = False\<rparr>"
  by (simp add: plan_eval fs_eval string_eval replicate_numeral example_eval Let_def
        cong: let_weak_cong)

end
